theory Spec2Isabelle
  imports Main "HOL-Library.Sublist"
begin

section \<open>KickAlerts: a shallow embedding of \<^verbatim>\<open>kickalerts.py\<close>\<close>

text \<open>
  The cog polls the channel endpoint of Kick for every watched streamer, compares the
  answer with the stored record and sends, edits or deletes a Discord message.

  Conventions of the model.
  \<^item> A Python \<^verbatim>\<open>str\<close> is a \<open>string\<close>; text outside ASCII is its UTF-8 bytes.
    \<^verbatim>\<open>lower\<close> and \<^verbatim>\<open>strip\<close> act on the ASCII letters and the ASCII white space.
  \<^item> A decoded JSON value (and a value of the Red configuration, which is stored as
    JSON) is a \<open>json\<close>; numbers are integers; \<open>JNull\<close> is Python's \<^verbatim>\<open>None\<close>.
  \<^item> A Python \<^verbatim>\<open>dict\<close> with string keys is an association list read at its first
    binding.
  \<^item> An exception is a value: functions that can raise return \<open>py_error + 'a\<close>.
\<close>

subsection \<open>Values\<close>

datatype json =
    JNull
  | JBool bool
  | JNum int
  | JStr string
  | JList "json list"
  | JObj "(string \<times> json) list"

type_synonym dict = "(string \<times> json) list"

datatype py_error = AttributeError | TypeError | KeyError | IndexError | ValueError

text \<open>Truth value testing: \<^verbatim>\<open>if x\<close>, \<^verbatim>\<open>not x\<close>, \<^verbatim>\<open>x and y\<close>, \<^verbatim>\<open>x or y\<close>.\<close>

fun truthy :: "json \<Rightarrow> bool" where
  "truthy JNull = False"
| "truthy (JBool b) = b"
| "truthy (JNum n) = (n \<noteq> 0)"
| "truthy (JStr s) = (s \<noteq> [])"
| "truthy (JList xs) = (xs \<noteq> [])"
| "truthy (JObj kvs) = (kvs \<noteq> [])"

definition py_or :: "json \<Rightarrow> json \<Rightarrow> json" where
  "py_or a b = (if truthy a then a else b)"

text \<open>\<^verbatim>\<open>d.get(k)\<close> and \<^verbatim>\<open>d.get(k, default)\<close> on a dict.\<close>

definition dict_get :: "dict \<Rightarrow> string \<Rightarrow> json" where
  "dict_get d k = (case map_of d k of None \<Rightarrow> JNull | Some v \<Rightarrow> v)"

definition dict_get_default :: "dict \<Rightarrow> string \<Rightarrow> json \<Rightarrow> json" where
  "dict_get_default d k dflt = (case map_of d k of None \<Rightarrow> dflt | Some v \<Rightarrow> v)"

text \<open>\<^verbatim>\<open>d[k] = v\<close>: the binding of an existing key is replaced in place, a new key is added.\<close>

fun dict_set :: "(string \<times> 'v) list \<Rightarrow> string \<Rightarrow> 'v \<Rightarrow> (string \<times> 'v) list" where
  "dict_set [] k v = [(k, v)]"
| "dict_set ((k', v') # kvs) k v =
     (if k' = k then (k, v) # kvs else (k', v') # dict_set kvs k v)"

text \<open>\<^verbatim>\<open>a == b\<close> on decoded JSON: a boolean equals the integer 0 or 1, lists are compared
  element by element and dicts key by key, whatever the order of the keys.\<close>

fun py_eq :: "json \<Rightarrow> json \<Rightarrow> bool" where
  "py_eq JNull JNull = True"
| "py_eq (JBool a) (JBool b) = (a = b)"
| "py_eq (JBool a) (JNum n) = (n = of_bool a)"
| "py_eq (JNum n) (JBool a) = (n = of_bool a)"
| "py_eq (JNum a) (JNum b) = (a = b)"
| "py_eq (JStr a) (JStr b) = (a = b)"
| "py_eq (JList xs) (JList ys) = list_all2 py_eq xs ys"
| "py_eq (JObj a) (JObj b) =
     (list_all (\<lambda>k. k \<in> set (map fst a)) (map fst b)
      \<and> list_all (\<lambda>(k, v). case map_of b k of
                                None \<Rightarrow> False
                              | Some w \<Rightarrow> (if map_of a k = Some v then py_eq v w else True)) a)"
| "py_eq _ _ = False"

text \<open>An \<^verbatim>\<open>Optional[int]\<close> argument as a value.\<close>

definition opt_json :: "int option \<Rightarrow> json" where
  "opt_json x = (case x of None \<Rightarrow> JNull | Some n \<Rightarrow> JNum n)"

text \<open>\<^verbatim>\<open>x.get(k, default)\<close> on any value: only a dict has the method.\<close>

definition py_get :: "json \<Rightarrow> string \<Rightarrow> json \<Rightarrow> py_error + json" where
  "py_get x k dflt =
     (case x of
        JObj d \<Rightarrow> Inr (dict_get_default d k dflt)
      | _ \<Rightarrow> Inl AttributeError)"

text \<open>Sequencing of computations that can raise.\<close>

definition py_bind :: "py_error + 'a \<Rightarrow> ('a \<Rightarrow> py_error + 'b) \<Rightarrow> py_error + 'b" where
  "py_bind m f = (case m of Inl e \<Rightarrow> Inl e | Inr x \<Rightarrow> f x)"

subsection \<open>Strings\<close>

definition lower_char :: "char \<Rightarrow> char" where
  "lower_char c =
     (case map_of (zip ''ABCDEFGHIJKLMNOPQRSTUVWXYZ'' ''abcdefghijklmnopqrstuvwxyz'') c of
        Some d \<Rightarrow> d
      | None \<Rightarrow> c)"

definition py_lower :: "string \<Rightarrow> string" where
  "py_lower s = map lower_char s"





text \<open>Decimal digits of a natural number.\<close>

function dec_nat :: "nat \<Rightarrow> string" where
  "dec_nat n =
     (if n < 10 then [''0123456789'' ! n]
      else dec_nat (n div 10) @ [''0123456789'' ! (n mod 10)])"
  by pat_completeness auto
termination
  by (relation "measure id") auto

declare dec_nat.simps [simp del]

text \<open>\<^verbatim>\<open>str(v)\<close> and \<^verbatim>\<open>f"{v}"\<close>. On a list or a dict Python prints its \<^verbatim>\<open>repr\<close>, which
  is not modelled: it is the parameter \<open>repr\<close>.\<close>

definition py_str :: "(json \<Rightarrow> string) \<Rightarrow> json \<Rightarrow> string" where
  "py_str repr v =
     (case v of
        JNull \<Rightarrow> ''None''
      | JBool b \<Rightarrow> (if b then ''True'' else ''False'')
      | JNum n \<Rightarrow> (if n < 0 then ''-'' @ dec_nat (nat (- n)) else dec_nat (nat n))
      | JStr s \<Rightarrow> s
      | _ \<Rightarrow> repr v)"

text \<open>\<^verbatim>\<open>s.replace(old, new)\<close>: every occurrence of \<open>old\<close>, found from the left and not
  overlapping, becomes \<open>new\<close>. With an empty \<open>old\<close> Python puts \<open>new\<close> before every
  character and at the end.\<close>

function py_replace :: "string \<Rightarrow> string \<Rightarrow> string \<Rightarrow> string" where
  "py_replace old new [] = (if old = [] then new else [])"
| "py_replace old new (c # cs) =
     (if old = [] then new @ c # py_replace old new cs
      else if take (length old) (c # cs) = old
        then new @ py_replace old new (drop (length old) (c # cs))
        else c # py_replace old new cs)"
  by pat_completeness auto
termination
  by (relation "measure (\<lambda>(old, new, s). length s)") auto

subsection \<open>The upstream client: \<^verbatim>\<open>_fetch_channel_data\<close>\<close>

definition KICK_API_BASE :: string where
  "KICK_API_BASE = ''https://kick.com/api/v2/channels''"

definition KICK_BASE_URL :: string where
  "KICK_BASE_URL = ''https://kick.com''"

text \<open>What the GET of one URL can do: answer with a status (and a body that
  \<^verbatim>\<open>resp.json()\<close> decodes, or fails to decode), or raise.\<close>

datatype fetch_exc = TimeoutError | ClientError | OtherException

datatype http_outcome =
    Response int "fetch_exc + json"
  | Raised fetch_exc

datatype log_level = Debug | Warning | Error

text \<open>\<^verbatim>\<open>url = f"{KICK_API_BASE}/{username.lower()}"\<close>\<close>

definition request_url :: "string \<Rightarrow> string" where
  "request_url uname = KICK_API_BASE @ ''/'' @ py_lower uname"

definition log_of_exc :: "fetch_exc \<Rightarrow> log_level" where
  "log_of_exc e = (case e of TimeoutError \<Rightarrow> Warning | ClientError \<Rightarrow> Warning | OtherException \<Rightarrow> Error)"

text \<open>The result is the decoded body or \<open>JNull\<close> (\<^verbatim>\<open>None\<close>), with the line logged, if any.\<close>

definition fetch_channel_data :: "(string \<Rightarrow> http_outcome) \<Rightarrow> string \<Rightarrow> log_level option \<times> json" where
  "fetch_channel_data http uname =
     (case http (request_url uname) of
        Response status body \<Rightarrow>
          (if status = 200 then
             (case body of
                Inr data \<Rightarrow> (None, data)
              | Inl e \<Rightarrow> (Some (log_of_exc e), JNull))
           else if status = 404 then (Some Debug, JNull)
           else (Some Warning, JNull))
      | Raised e \<Rightarrow> (Some (log_of_exc e), JNull))"



text \<open>Three networks, used in the examples: every request is answered 404, answered 503,
  or times out.\<close>

definition http_404 :: "string \<Rightarrow> http_outcome" where
  "http_404 url = Response 404 (Inl ClientError)"

definition http_503 :: "string \<Rightarrow> http_outcome" where
  "http_503 url = Response 503 (Inl ClientError)"

definition http_timeout :: "string \<Rightarrow> http_outcome" where
  "http_timeout url = Raised TimeoutError"

subsection \<open>Normalisation: \<^verbatim>\<open>_parse_stream_info\<close>\<close>

text \<open>The dict \<^verbatim>\<open>info\<close> has a fixed set of keys: the eight of the literal, then the nine
  that \<^verbatim>\<open>info.update\<close> adds in either branch. Every value is whatever the payload holds.\<close>

record channel_info =
  is_live :: json
  username :: json
  display_name :: json
  avatar_url :: json
  channel_url :: json
  followers :: json
  is_verified :: json
  banner_url :: json

record stream_info = channel_info +
  stream_id :: json
  stream_title :: json
  viewer_count :: json
  category :: json
  thumbnail_url :: json
  started_at :: json
  language :: json
  is_mature :: json
  tags :: json

text \<open>The eight entries of the literal, evaluated in this order. The default of a
  \<^verbatim>\<open>get\<close> is evaluated before the call, so \<^verbatim>\<open>data.get("user", {}).get(...)\<close> is
  evaluated whether or not \<^verbatim>\<open>slug\<close> is present.\<close>

definition channel_fields :: "(json \<Rightarrow> string) \<Rightarrow> dict \<Rightarrow> json \<Rightarrow> py_error + channel_info" where
  "channel_fields repr d live =
     (let user = dict_get_default d ''user'' (JObj []) in
      py_bind (py_get user ''username'' (JStr ''Unknown'')) (\<lambda>user_name.
      py_bind (py_get user ''username'' (dict_get_default d ''slug'' (JStr ''Unknown''))) (\<lambda>display.
      py_bind (py_get user ''profile_pic'' JNull) (\<lambda>pic.
      py_bind (if truthy (dict_get d ''banner_image'')
               then py_get (dict_get_default d ''banner_image'' (JObj [])) ''url'' JNull
               else Inr JNull) (\<lambda>banner.
      Inr \<lparr>is_live = live,
           username = dict_get_default d ''slug'' user_name,
           display_name = display,
           avatar_url = pic,
           channel_url = JStr (KICK_BASE_URL @ ''/'' @ py_str repr (dict_get_default d ''slug'' (JStr []))),
           followers = dict_get_default d ''followersCount'' (JNum 0),
           is_verified = dict_get_default d ''verified'' (JBool False),
           banner_url = banner\<rparr>)))))"

text \<open>\<^verbatim>\<open>livestream.get("categories", [{}])[0].get("name", "Unknown")\<close> when the list is
  truthy, else the singular \<^verbatim>\<open>category\<close>, else \<^verbatim>\<open>"Unknown"\<close>. A truthy value that is not
  a list of dicts raises: a dict has no key 0, a number has no index, and the first
  character of a string has no \<^verbatim>\<open>get\<close>.\<close>

definition parse_category :: "dict \<Rightarrow> py_error + json" where
  "parse_category ls =
     (if truthy (dict_get ls ''categories'') then
        (case dict_get_default ls ''categories'' (JList [JObj []]) of
           JList [] \<Rightarrow> Inl IndexError
         | JList (c # cs) \<Rightarrow> py_get c ''name'' (JStr ''Unknown'')
         | JObj kvs \<Rightarrow> Inl KeyError
         | JStr s \<Rightarrow> (if s = [] then Inl IndexError else Inl AttributeError)
         | _ \<Rightarrow> Inl TypeError)
      else if truthy (dict_get ls ''category'') then
        py_get (dict_get_default ls ''category'' (JObj [])) ''name'' (JStr ''Unknown'')
      else Inr (JStr ''Unknown''))"

text \<open>\<^verbatim>\<open>[tag.get("name", "") for tag in livestream.get("tags", [])]\<close>. Iterating a string
  yields its characters and iterating a dict its keys, neither of which has \<^verbatim>\<open>get\<close>;
  \<^verbatim>\<open>None\<close>, a number and a boolean cannot be iterated.\<close>

fun tag_names :: "json list \<Rightarrow> py_error + json list" where
  "tag_names [] = Inr []"
| "tag_names (t # ts) =
     py_bind (py_get t ''name'' (JStr [])) (\<lambda>n.
     py_bind (tag_names ts) (\<lambda>ns. Inr (n # ns)))"

definition parse_tags :: "dict \<Rightarrow> py_error + json" where
  "parse_tags ls =
     (case dict_get_default ls ''tags'' (JList []) of
        JList ts \<Rightarrow> py_bind (tag_names ts) (\<lambda>ns. Inr (JList ns))
      | JStr s \<Rightarrow> (if s = [] then Inr (JList []) else Inl AttributeError)
      | JObj kvs \<Rightarrow> (if kvs = [] then Inr (JList []) else Inl AttributeError)
      | _ \<Rightarrow> Inl TypeError)"

text \<open>\<^verbatim>\<open>thumbnail\<close> is a nested object with a \<^verbatim>\<open>url\<close>, or the value itself.\<close>

definition parse_thumbnail :: "dict \<Rightarrow> json" where
  "parse_thumbnail ls =
     (case dict_get ls ''thumbnail'' of
        JObj t \<Rightarrow> dict_get t ''url''
      | v \<Rightarrow> v)"

text \<open>The two arguments of \<^verbatim>\<open>info.update\<close>: lines 138 to 153 and lines 155 to 165.\<close>

definition live_fields :: "dict \<Rightarrow> py_error + unit stream_info_ext" where
  "live_fields ls =
     py_bind (parse_category ls) (\<lambda>cat.
     py_bind (parse_tags ls) (\<lambda>tgs.
     Inr \<lparr>stream_id = dict_get ls ''id'',
          stream_title = dict_get_default ls ''session_title'' (JStr ''No Title''),
          viewer_count = dict_get_default ls ''viewer_count'' (JNum 0),
          category = cat,
          thumbnail_url = parse_thumbnail ls,
          started_at = dict_get_default ls ''created_at'' JNull,
          language = dict_get_default ls ''language'' (JStr ''en''),
          is_mature = dict_get_default ls ''is_mature'' (JBool False),
          tags = tgs\<rparr>))"

definition offline_fields :: "unit stream_info_ext" where
  "offline_fields =
     \<lparr>stream_id = JNull,
      stream_title = JNull,
      viewer_count = JNum 0,
      category = JNull,
      thumbnail_url = JNull,
      started_at = JNull,
      language = JNull,
      is_mature = JBool False,
      tags = JList []\<rparr>"

definition parse_stream_info :: "(json \<Rightarrow> string) \<Rightarrow> json \<Rightarrow> py_error + stream_info" where
  "parse_stream_info repr data =
     (case data of
        JObj d \<Rightarrow>
          (let livestream = dict_get d ''livestream'' in
           py_bind (if livestream = JNull then Inr (JBool False)
                    else py_get livestream ''is_live'' (JBool False)) (\<lambda>live.
           py_bind (channel_fields repr d live) (\<lambda>info.
           py_bind (if truthy live \<and> truthy livestream
                    then (case livestream of
                            JObj ls \<Rightarrow> live_fields ls
                          | _ \<Rightarrow> Inl AttributeError)
                    else Inr offline_fields) (\<lambda>more.
           Inr (channel_info.extend info more)))))
      | _ \<Rightarrow> Inl AttributeError)"

text \<open>\<^verbatim>\<open>livestream\<close> is absent or null, or an object whose \<^verbatim>\<open>is_live\<close> is false.\<close>

definition livestream_off :: "dict \<Rightarrow> bool" where
  "livestream_off d =
     (case map_of d ''livestream'' of
        None \<Rightarrow> True
      | Some JNull \<Rightarrow> True
      | Some (JObj ls) \<Rightarrow> map_of ls ''is_live'' = Some (JBool False)
      | Some _ \<Rightarrow> False)"

text \<open>Payloads of the examples: an offline channel, a live one, and one whose
  \<^verbatim>\<open>user\<close> is null.\<close>

definition payload_offline :: dict where
  "payload_offline =
     [(''slug'', JStr ''nova''),
      (''user'', JObj [(''username'', JStr ''Nova'')]),
      (''livestream'', JNull)]"

definition payload_live :: dict where
  "payload_live =
     [(''slug'', JStr ''nova''),
      (''user'', JObj [(''username'', JStr ''Nova'')]),
      (''livestream'',
         JObj [(''is_live'', JBool True), (''id'', JNum 7), (''session_title'', JStr ''Chess time''),
               (''categories'', JList [JObj [(''name'', JStr ''Chess'')]]),
               (''viewer_count'', JNum 1200)])]"

definition payload_null_user :: dict where
  "payload_null_user = [(''slug'', JStr ''nova''), (''user'', JNull), (''livestream'', JNull)]"

text \<open>What the parse makes of the first two.\<close>

definition info_offline :: stream_info where
  "info_offline =
     \<lparr>is_live = JBool False, username = JStr ''nova'', display_name = JStr ''Nova'',
      avatar_url = JNull, channel_url = JStr ''https://kick.com/nova'', followers = JNum 0,
      is_verified = JBool False, banner_url = JNull,
      stream_id = JNull, stream_title = JNull, viewer_count = JNum 0, category = JNull,
      thumbnail_url = JNull, started_at = JNull, language = JNull, is_mature = JBool False,
      tags = JList []\<rparr>"

definition info_live :: stream_info where
  "info_live =
     \<lparr>is_live = JBool True, username = JStr ''nova'', display_name = JStr ''Nova'',
      avatar_url = JNull, channel_url = JStr ''https://kick.com/nova'', followers = JNum 0,
      is_verified = JBool False, banner_url = JNull,
      stream_id = JNum 7, stream_title = JStr ''Chess time'', viewer_count = JNum 1200,
      category = JStr ''Chess'', thumbnail_url = JNull, started_at = JNull,
      language = JStr ''en'', is_mature = JBool False, tags = JList []\<rparr>"

definition repr_none :: "json \<Rightarrow> string" where
  "repr_none v = []"

subsection \<open>The outside world of one check\<close>

text \<open>
  The Discord calls raise \<^verbatim>\<open>discord.NotFound\<close>, \<^verbatim>\<open>discord.Forbidden\<close> or another
  \<^verbatim>\<open>discord.HTTPException\<close>. One check makes each call at most once, so the world of a
  check fixes one outcome per call: the answer of the network, the id of the message that
  \<^verbatim>\<open>channel.send\<close> returns, and whether \<^verbatim>\<open>fetch_message\<close>, \<^verbatim>\<open>delete\<close> and \<^verbatim>\<open>edit\<close> fail.
  The two embed builders read the clock and the Discord library; they are parameters
  that return an embed of some type \<open>'e\<close> or raise.
\<close>

datatype discord_error = NotFound | Forbidden | HTTPException

record 'e world =
  network :: "string \<Rightarrow> http_outcome"
  py_repr :: "json \<Rightarrow> string"
  build_live_embed :: "stream_info \<Rightarrow> string \<Rightarrow> bool \<Rightarrow> bool \<Rightarrow> py_error + 'e"
  build_offline_embed :: "stream_info \<Rightarrow> py_error + 'e"
  send_result :: "discord_error + int"
  fetch_message_result :: "discord_error option"
  delete_result :: "discord_error option"
  edit_result :: "discord_error option"

text \<open>\<^verbatim>\<open>guild.get_channel(id)\<close> and, for \<^verbatim>\<open>guild.get_role(id)\<close>, the mention of the role.\<close>

record guild =
  get_channel :: "json \<Rightarrow> int option"
  get_role :: "json \<Rightarrow> string option"

text \<open>What a check did, in order: the request, then the Discord calls it attempted
  (\<open>Edit\<close> says whether \<^verbatim>\<open>content=None\<close> was passed).\<close>

datatype 'e action =
    HttpGet string
  | Send int "string option" 'e
  | FetchMessage int json
  | Delete json
  | Edit json bool 'e

text \<open>The result of a check: the exception that left it, if any, what it did, and the
  stored \<^verbatim>\<open>streamers\<close> of the guild afterwards.\<close>

record 'e check_result =
  raised :: "py_error option"
  actions :: "'e action list"
  saved :: "(string \<times> dict) list"

definition is_send :: "'e action \<Rightarrow> bool" where
  "is_send a = (case a of Send ch content emb \<Rightarrow> True | _ \<Rightarrow> False)"

definition is_message_op :: "'e action \<Rightarrow> bool" where
  "is_message_op a =
     (case a of
        FetchMessage ch m \<Rightarrow> True
      | Delete m \<Rightarrow> True
      | Edit m c emb \<Rightarrow> True
      | _ \<Rightarrow> False)"

subsection \<open>The custom message: \<^verbatim>\<open>_check_single_streamer\<close>, lines 387 to 395\<close>

text \<open>The second argument of \<^verbatim>\<open>str.replace\<close> must be a \<^verbatim>\<open>str\<close>.\<close>

definition as_str :: "json \<Rightarrow> py_error + string" where
  "as_str v = (case v of JStr s \<Rightarrow> Inr s | _ \<Rightarrow> Inl TypeError)"

text \<open>The five replacements on strings, in the order of the source.\<close>

definition apply_placeholders ::
  "string \<Rightarrow> string \<Rightarrow> string \<Rightarrow> string \<Rightarrow> string \<Rightarrow> string \<Rightarrow> string" where
  "apply_placeholders msg streamer game title url viewers =
     (let m1 = py_replace ''{streamer}'' streamer msg;
          m2 = py_replace ''{game}'' game m1;
          m3 = py_replace ''{title}'' title m2;
          m4 = py_replace ''{url}'' url m3
      in py_replace ''{viewers}'' viewers m4)"

definition custom_message_subst :: "(json \<Rightarrow> string) \<Rightarrow> string \<Rightarrow> stream_info \<Rightarrow> py_error + string" where
  "custom_message_subst repr msg info =
     py_bind (as_str (display_name info)) (\<lambda>streamer.
     py_bind (as_str (category info)) (\<lambda>game.
     py_bind (as_str (stream_title info)) (\<lambda>title.
     py_bind (as_str (channel_url info)) (\<lambda>url.
     Inr (apply_placeholders msg streamer game title url (py_str repr (viewer_count info)))))))"

text \<open>Lines 380 to 395: the mention of the ping role, then the custom message under it.
  A truthy \<^verbatim>\<open>custom_message\<close> that is not a string has no \<^verbatim>\<open>replace\<close>.\<close>

definition live_content :: "(json \<Rightarrow> string) \<Rightarrow> guild \<Rightarrow> json \<Rightarrow> dict \<Rightarrow> stream_info \<Rightarrow> py_error + string option" where
  "live_content repr g ping_role_id streamer_config info =
     (let content = (if truthy ping_role_id then get_role g ping_role_id else None);
          custom_msg = dict_get streamer_config ''custom_message''
      in if truthy custom_msg then
           (case custom_msg of
              JStr m \<Rightarrow>
                py_bind (custom_message_subst repr m info) (\<lambda>m'.
                Inr (Some (case content of
                             None \<Rightarrow> m'
                           | Some c \<Rightarrow> (if c \<noteq> [] then c @ [CHR 0x0A] @ m' else m'))))
            | _ \<Rightarrow> Inl AttributeError)
         else Inr content)"

subsection \<open>The custom message as the specification reads it\<close>

text \<open>
  The specification speaks of placeholders that are substituted literally, in any order,
  and of unrecognised placeholders that pass through. That reading needs a template made
  of text and of tokens \<^verbatim>\<open>{name}\<close>: a token list, its text, and the text with every
  token that has a value replaced by it at once.
\<close>

datatype token = Lit string | Tok string

definition placeholder :: "string \<Rightarrow> string" where
  "placeholder n = ''{'' @ n @ ''}''"

fun render_token :: "token \<Rightarrow> string" where
  "render_token (Lit s) = s"
| "render_token (Tok n) = placeholder n"

definition render :: "token list \<Rightarrow> string" where
  "render toks = concat (map render_token toks)"

text \<open>Text holds no opening brace, and a name holds no brace at all.\<close>

fun wf_token :: "token \<Rightarrow> bool" where
  "wf_token (Lit s) = (CHR ''{'' \<notin> set s)"
| "wf_token (Tok n) = (CHR ''{'' \<notin> set n \<and> CHR ''}'' \<notin> set n)"

fun fill_token :: "(string \<times> string) list \<Rightarrow> token \<Rightarrow> string" where
  "fill_token bs (Lit s) = s"
| "fill_token bs (Tok n) = (case map_of bs n of Some v \<Rightarrow> v | None \<Rightarrow> placeholder n)"

definition fill :: "(string \<times> string) list \<Rightarrow> token list \<Rightarrow> string" where
  "fill bs toks = concat (map (fill_token bs) toks)"

text \<open>One token replaced, as a single \<^verbatim>\<open>replace\<close> does it on a well-formed template.\<close>

fun subst1 :: "string \<Rightarrow> string \<Rightarrow> token \<Rightarrow> token" where
  "subst1 p v (Lit s) = Lit s"
| "subst1 p v (Tok n) = (if n = p then Lit v else Tok n)"

text \<open>The replacements of a list of names and values, one after the other in the order
  of the list; the five names of the source, and their values in the order of the source.\<close>

definition replace_seq :: "(string \<times> string) list \<Rightarrow> string \<Rightarrow> string" where
  "replace_seq bs msg = foldl (\<lambda>m (n, v). py_replace (placeholder n) v m) msg bs"

definition placeholder_names :: "string list" where
  "placeholder_names = [''streamer'', ''game'', ''title'', ''url'', ''viewers'']"

definition placeholder_values ::
  "string \<Rightarrow> string \<Rightarrow> string \<Rightarrow> string \<Rightarrow> string \<Rightarrow> (string \<times> string) list" where
  "placeholder_values streamer game title url viewers =
     [(''streamer'', streamer), (''game'', game), (''title'', title), (''url'', url),
      (''viewers'', viewers)]"

text \<open>The template of the example: \<^verbatim>\<open>{streamer} playing {game} - {url}\<close>, with an em
  dash (the bytes E2 80 94) for the hyphen.\<close>

definition template_example :: "token list" where
  "template_example =
     [Tok ''streamer'', Lit '' playing '', Tok ''game'',
      Lit ([CHR 0x20, CHR 0xE2, CHR 0x80, CHR 0x94, CHR 0x20]), Tok ''url'']"

subsection \<open>The transition engine: \<^verbatim>\<open>_check_single_streamer\<close>\<close>

text \<open>Line 377, the part after \<^verbatim>\<open>is_live and\<close>:
  \<^verbatim>\<open>not was_live or (current_stream_id and current_stream_id != last_stream_id)\<close>.\<close>

definition new_session :: "dict \<Rightarrow> stream_info \<Rightarrow> bool" where
  "new_session streamer_config info =
     (let was_live = dict_get_default streamer_config ''is_live'' (JBool False);
          last_stream_id = dict_get streamer_config ''last_stream_id'';
          current_stream_id = stream_id info
      in \<not> truthy was_live \<or> (truthy current_stream_id \<and> \<not> py_eq current_stream_id last_stream_id))"

text \<open>Lines 378 to 410. The state is written only after \<^verbatim>\<open>channel.send\<close> has returned, and
  only when the username is still a key of the stored dict; a failed send is logged.\<close>

definition went_live ::
  "'e world \<Rightarrow> guild \<Rightarrow> string \<Rightarrow> dict \<Rightarrow> string \<Rightarrow> bool \<Rightarrow> bool \<Rightarrow> int \<Rightarrow> json \<Rightarrow> stream_info
     \<Rightarrow> (string \<times> dict) list \<Rightarrow> 'e check_result" where
  "went_live w g uname streamer_config embed_style show_viewers show_category channel ping_role_id info store =
     (case build_live_embed w info embed_style show_viewers show_category of
        Inl e \<Rightarrow> \<lparr>raised = Some e, actions = [], saved = store\<rparr>
      | Inr emb \<Rightarrow>
          (case live_content (py_repr w) g ping_role_id streamer_config info of
             Inl e \<Rightarrow> \<lparr>raised = Some e, actions = [], saved = store\<rparr>
           | Inr content \<Rightarrow>
               (case send_result w of
                  Inl err \<Rightarrow> \<lparr>raised = None, actions = [Send channel content emb], saved = store\<rparr>
                | Inr msg_id \<Rightarrow>
                    \<lparr>raised = None,
                     actions = [Send channel content emb],
                     saved = (case map_of store uname of
                                None \<Rightarrow> store
                              | Some r \<Rightarrow>
                                  dict_set store uname
                                    (dict_set (dict_set (dict_set r
                                       ''is_live'' (JBool True))
                                       ''last_stream_id'' (stream_id info))
                                       ''last_message_id'' (JNum msg_id)))\<rparr>)))"

text \<open>Lines 414 to 435, inside \<^verbatim>\<open>async with self.config.guild(guild).streamers()\<close>: the
  record is read from the store, not from the snapshot. The context manager of Red
  writes the dict back when the block is left, also when an exception leaves it; the
  only exception that can is one of \<^verbatim>\<open>_build_offline_embed\<close>, and then
  \<^verbatim>\<open>last_message_id\<close> has not been cleared.\<close>

definition went_offline ::
  "'e world \<Rightarrow> string \<Rightarrow> dict \<Rightarrow> bool \<Rightarrow> int \<Rightarrow> stream_info \<Rightarrow> (string \<times> dict) list \<Rightarrow> 'e check_result" where
  "went_offline w uname streamer_config auto_delete channel info store =
     (case map_of store uname of
        None \<Rightarrow> \<lparr>raised = None, actions = [], saved = store\<rparr>
      | Some r \<Rightarrow>
          (let r1 = dict_set r ''is_live'' (JBool False);
               last_msg_id = dict_get r1 ''last_message_id'';
               cleared = dict_set store uname (dict_set r1 ''last_message_id'' JNull)
           in if truthy last_msg_id then
                (case fetch_message_result w of
                   Some err \<Rightarrow>
                     \<lparr>raised = None, actions = [FetchMessage channel last_msg_id], saved = cleared\<rparr>
                 | None \<Rightarrow>
                     (if truthy (dict_get_default streamer_config ''delete_after_offline'' (JBool auto_delete))
                      then (case delete_result w of
                              Some err \<Rightarrow>
                                \<lparr>raised = None,
                                 actions = [FetchMessage channel last_msg_id, Delete last_msg_id],
                                 saved = cleared\<rparr>
                            | None \<Rightarrow>
                                \<lparr>raised = None,
                                 actions = [FetchMessage channel last_msg_id, Delete last_msg_id],
                                 saved = cleared\<rparr>)
                      else (case build_offline_embed w info of
                              Inl e \<Rightarrow>
                                \<lparr>raised = Some e,
                                 actions = [FetchMessage channel last_msg_id],
                                 saved = dict_set store uname r1\<rparr>
                            | Inr emb \<Rightarrow>
                                (case edit_result w of
                                   Some err \<Rightarrow>
                                     \<lparr>raised = None,
                                      actions = [FetchMessage channel last_msg_id, Edit last_msg_id True emb],
                                      saved = cleared\<rparr>
                                 | None \<Rightarrow>
                                     \<lparr>raised = None,
                                      actions = [FetchMessage channel last_msg_id, Edit last_msg_id True emb],
                                      saved = cleared\<rparr>))))
              else \<lparr>raised = None, actions = [], saved = cleared\<rparr>))"

text \<open>Lines 438 to 447: the refresh of the message of a stream that is still live. Here
  \<^verbatim>\<open>last_message_id\<close> is the one of the snapshot, and nothing is written.\<close>

definition still_live ::
  "'e world \<Rightarrow> dict \<Rightarrow> string \<Rightarrow> bool \<Rightarrow> bool \<Rightarrow> int \<Rightarrow> stream_info \<Rightarrow> (string \<times> dict) list \<Rightarrow> 'e check_result" where
  "still_live w streamer_config embed_style show_viewers show_category channel info store =
     (let last_msg_id = dict_get streamer_config ''last_message_id''
      in if truthy last_msg_id then
           (case fetch_message_result w of
              Some err \<Rightarrow>
                \<lparr>raised = None, actions = [FetchMessage channel last_msg_id], saved = store\<rparr>
            | None \<Rightarrow>
                (case build_live_embed w info embed_style show_viewers show_category of
                   Inl e \<Rightarrow>
                     \<lparr>raised = Some e, actions = [FetchMessage channel last_msg_id], saved = store\<rparr>
                 | Inr emb \<Rightarrow>
                     (case edit_result w of
                        Some err \<Rightarrow>
                          \<lparr>raised = None,
                           actions = [FetchMessage channel last_msg_id, Edit last_msg_id False emb],
                           saved = store\<rparr>
                      | None \<Rightarrow>
                          \<lparr>raised = None,
                           actions = [FetchMessage channel last_msg_id, Edit last_msg_id False emb],
                           saved = store\<rparr>)))
         else \<lparr>raised = None, actions = [], saved = store\<rparr>)"

text \<open>Lines 376, 413 and 438: the chain of \<^verbatim>\<open>if\<close> and \<^verbatim>\<open>elif\<close>, once the channel is known.\<close>

definition transition ::
  "'e world \<Rightarrow> guild \<Rightarrow> string \<Rightarrow> dict \<Rightarrow> string \<Rightarrow> bool \<Rightarrow> bool \<Rightarrow> bool \<Rightarrow> int \<Rightarrow> json \<Rightarrow> stream_info
     \<Rightarrow> (string \<times> dict) list \<Rightarrow> 'e check_result" where
  "transition w g uname streamer_config embed_style show_viewers show_category auto_delete channel
      ping_role_id info store =
     (let was_live = dict_get_default streamer_config ''is_live'' (JBool False);
          live = is_live info
      in if truthy live \<and> new_session streamer_config info then
           went_live w g uname streamer_config embed_style show_viewers show_category channel
             ping_role_id info store
         else if \<not> truthy live \<and> truthy was_live then
           went_offline w uname streamer_config auto_delete channel info store
         else if truthy live \<and> truthy was_live \<and> embed_style = ''detailed'' then
           still_live w streamer_config embed_style show_viewers show_category channel info store
         else \<lparr>raised = None, actions = [], saved = store\<rparr>)"

text \<open>Line 365: \<^verbatim>\<open>streamer_config.get("channel_id") or global_channel_id\<close>.\<close>

definition resolve_channel_id :: "dict \<Rightarrow> int option \<Rightarrow> json" where
  "resolve_channel_id streamer_config global_channel_id =
     py_or (dict_get streamer_config ''channel_id'') (opt_json global_channel_id)"

text \<open>The whole check, lines 353 to 447.\<close>

definition check_single_streamer ::
  "'e world \<Rightarrow> guild \<Rightarrow> string \<Rightarrow> dict \<Rightarrow> string \<Rightarrow> bool \<Rightarrow> bool \<Rightarrow> bool \<Rightarrow> int option \<Rightarrow> int option
     \<Rightarrow> (string \<times> dict) list \<Rightarrow> 'e check_result" where
  "check_single_streamer w g uname streamer_config embed_style show_viewers show_category auto_delete
      global_channel_id global_ping_role_id store =
     (let request = HttpGet (request_url uname);
          data = snd (fetch_channel_data (network w) uname)
      in if data = JNull then \<lparr>raised = None, actions = [request], saved = store\<rparr>
         else
           (case parse_stream_info (py_repr w) data of
              Inl e \<Rightarrow> \<lparr>raised = Some e, actions = [request], saved = store\<rparr>
            | Inr info \<Rightarrow>
                (let channel_id = resolve_channel_id streamer_config global_channel_id
                 in if \<not> truthy channel_id then \<lparr>raised = None, actions = [request], saved = store\<rparr>
                    else
                      (case get_channel g channel_id of
                         None \<Rightarrow> \<lparr>raised = None, actions = [request], saved = store\<rparr>
                       | Some channel \<Rightarrow>
                           (let ping_role_id = py_or (dict_get streamer_config ''ping_role_id'')
                                                 (opt_json global_ping_role_id);
                                r = transition w g uname streamer_config embed_style show_viewers
                                      show_category auto_delete channel ping_role_id info store
                            in r\<lparr>actions := request # actions r\<rparr>)))))"

text \<open>The number of \<^verbatim>\<open>channel.send\<close> calls of a check.\<close>

definition n_sends :: "'e check_result \<Rightarrow> nat" where
  "n_sends r = length (filter is_send (actions r))"

text \<open>The announcement can be built: neither \<^verbatim>\<open>_build_live_embed\<close> nor the content of
  lines 380 to 395 raises.\<close>

definition renders :: "'e world \<Rightarrow> guild \<Rightarrow> dict \<Rightarrow> string \<Rightarrow> bool \<Rightarrow> bool \<Rightarrow> json \<Rightarrow> stream_info \<Rightarrow> bool" where
  "renders w g streamer_config embed_style show_viewers show_category ping_role_id info =
     (case build_live_embed w info embed_style show_viewers show_category of
        Inl e \<Rightarrow> False
      | Inr emb \<Rightarrow>
          (case live_content (py_repr w) g ping_role_id streamer_config info of
             Inl e \<Rightarrow> False
           | Inr c \<Rightarrow> True))"

subsection \<open>Worlds, guilds and records of the examples\<close>

text \<open>A world in which the endpoint answers 200 with the given payload, the embeds are
  the strings \<open>''live''\<close> and \<open>''offline''\<close>, and every Discord call succeeds; the
  message sent gets the id 4242.\<close>

definition world_of :: "dict \<Rightarrow> string world" where
  "world_of payload =
     \<lparr>network = (\<lambda>url. Response 200 (Inr (JObj payload))),
      py_repr = repr_none,
      build_live_embed = (\<lambda>info style sv sc. Inr ''live''),
      build_offline_embed = (\<lambda>info. Inr ''offline''),
      send_result = Inr 4242,
      fetch_message_result = None,
      delete_result = None,
      edit_result = None\<rparr>"

text \<open>A guild whose only channel has the id 1, and which has no role.\<close>

definition guild_one :: guild where
  "guild_one =
     \<lparr>get_channel = (\<lambda>c. if c = JNum 1 then Some 1 else None),
      get_role = (\<lambda>r. None)\<rparr>"

text \<open>A stored record with the keys that \<^verbatim>\<open>kickalert_add\<close> writes (lines 505 to 513).\<close>

definition record_of :: "json \<Rightarrow> json \<Rightarrow> json \<Rightarrow> json \<Rightarrow> dict" where
  "record_of channel_id last_message_id live last_stream_id =
     [(''channel_id'', channel_id),
      (''ping_role_id'', JNull),
      (''custom_message'', JNull),
      (''delete_after_offline'', JBool False),
      (''last_message_id'', last_message_id),
      (''is_live'', live),
      (''last_stream_id'', last_stream_id)]"

text \<open>A live payload that carries no stream id, and what the parse makes of it.\<close>

definition payload_live_noid :: dict where
  "payload_live_noid =
     [(''slug'', JStr ''nova''),
      (''user'', JObj [(''username'', JStr ''Nova'')]),
      (''livestream'', JObj [(''is_live'', JBool True)])]"

definition info_live_noid :: stream_info where
  "info_live_noid =
     \<lparr>is_live = JBool True, username = JStr ''nova'', display_name = JStr ''Nova'',
      avatar_url = JNull, channel_url = JStr ''https://kick.com/nova'', followers = JNum 0,
      is_verified = JBool False, banner_url = JNull,
      stream_id = JNull, stream_title = JStr ''No Title'', viewer_count = JNum 0,
      category = JStr ''Unknown'', thumbnail_url = JNull, started_at = JNull,
      language = JStr ''en'', is_mature = JBool False, tags = JList []\<rparr>"

subsection \<open>The scheduler's sleep time: \<^verbatim>\<open>_stream_checker_loop\<close>, lines 325 to 330\<close>

record guild_data =
  streamers :: "(string \<times> dict) list option"
  check_interval :: "int option"

text \<open>\<^verbatim>\<open>g.get("streamers")\<close> as a condition, and \<^verbatim>\<open>g.get("check_interval", 60)\<close>.\<close>

definition has_streamers :: "guild_data \<Rightarrow> bool" where
  "has_streamers g = (case streamers g of None \<Rightarrow> False | Some s \<Rightarrow> s \<noteq> [])"

definition interval_of :: "guild_data \<Rightarrow> int" where
  "interval_of g = (case check_interval g of None \<Rightarrow> 60 | Some n \<Rightarrow> n)"

definition sleep_time :: "guild_data list \<Rightarrow> int" where
  "sleep_time all_guilds =
     (let intervals = map interval_of (filter has_streamers all_guilds);
          t = (case intervals of [] \<Rightarrow> 60 | x # xs \<Rightarrow> foldl min x xs)
      in max t 30)"

section \<open>Properties\<close>

subsection \<open>Strings\<close>

lemma lower_char_idem: "lower_char (lower_char c) = lower_char c"
  unfolding lower_char_def by (simp split: option.splits)

lemma py_lower_idem: "py_lower (py_lower s) = py_lower s"
  by (simp add: py_lower_def lower_char_idem)






subsection \<open>The upstream client\<close>

text \<open>
  C7 (as the code has it). Whatever is not a 200 with a decodable body gives the same
  result, \<^verbatim>\<open>None\<close>: a 404, any other status, a timeout and a network fault alike. The 404
  differs only in the line that is logged (debug), so the caller of the fetch cannot
  tell a channel that does not exist from a fault to retry.
\<close>

theorem fetch_channel_data_failure:
  assumes "\<forall>data. http (request_url uname) \<noteq> Response 200 (Inr data)"
  shows "snd (fetch_channel_data http uname) = JNull
       \<and> fst (fetch_channel_data http uname) \<noteq> None
       \<and> (fst (fetch_channel_data http uname) = Some Debug
            \<longleftrightarrow> (\<exists>body. http (request_url uname) = Response 404 body))"
  using assms
  by (auto simp: fetch_channel_data_def log_of_exc_def
           split: http_outcome.splits sum.splits fetch_exc.splits)

theorem fetch_channel_data_failure_witness:
  "snd (fetch_channel_data http_404 ''nova'') = JNull
   \<and> fst (fetch_channel_data http_404 ''nova'') = Some Debug
   \<and> snd (fetch_channel_data http_timeout ''nova'') = JNull
   \<and> fst (fetch_channel_data http_timeout ''nova'') = Some Warning"
proof -
  have h1: "\<forall>data. http_404 (request_url ''nova'') \<noteq> Response 200 (Inr data)"
    by (simp add: http_404_def)
  have h2: "\<forall>data. http_timeout (request_url ''nova'') \<noteq> Response 200 (Inr data)"
    by (simp add: http_timeout_def)
  have "fst (fetch_channel_data http_timeout ''nova'') = Some Warning"
    by (simp add: fetch_channel_data_def http_timeout_def log_of_exc_def)
  with fetch_channel_data_failure [of http_404 "''nova''", OF h1]
       fetch_channel_data_failure [of http_timeout "''nova''", OF h2]
  show ?thesis
    by (simp add: http_404_def)
qed

text \<open>The claim as written fails: the fetch returns the same value for a 404, for a 503
  and for a timeout.\<close>

theorem fetch_not_found_counterexample:
  "snd (fetch_channel_data http_404 ''nova'') = snd (fetch_channel_data http_503 ''nova'')
   \<and> snd (fetch_channel_data http_404 ''nova'') = snd (fetch_channel_data http_timeout ''nova'')"
  by (simp add: fetch_channel_data_def http_404_def http_503_def http_timeout_def)




subsection \<open>Normalisation\<close>

lemma parse_payload_offline:
  "parse_stream_info repr (JObj payload_offline) = Inr info_offline"
  by (simp add: parse_stream_info_def payload_offline_def info_offline_def channel_fields_def
        offline_fields_def py_bind_def py_get_def dict_get_def dict_get_default_def
        py_str_def KICK_BASE_URL_def channel_info.defs)

lemma parse_payload_live:
  "parse_stream_info repr (JObj payload_live) = Inr info_live"
  by (simp add: parse_stream_info_def payload_live_def info_live_def channel_fields_def
        live_fields_def parse_category_def parse_tags_def parse_thumbnail_def
        py_bind_def py_get_def dict_get_def dict_get_default_def
        py_str_def KICK_BASE_URL_def channel_info.defs)

lemma parse_stream_info_off:
  assumes "livestream_off d"
  shows "parse_stream_info repr (JObj d) =
           py_bind (channel_fields repr d (JBool False))
             (\<lambda>info. Inr (channel_info.extend info offline_fields))"
  using assms
  by (auto simp: parse_stream_info_def livestream_off_def dict_get_def dict_get_default_def
                 py_get_def py_bind_def
           split: option.splits json.splits sum.splits)




text \<open>The parse of such a payload returns whenever \<^verbatim>\<open>user\<close> is absent or an object and
  \<^verbatim>\<open>banner_image\<close> is falsy or an object.\<close>

lemma parse_stream_info_offline_returns:
  assumes "livestream_off d"
      and "map_of d ''user'' = None \<or> (\<exists>u. map_of d ''user'' = Some (JObj u))"
      and "\<not> truthy (dict_get d ''banner_image'') \<or> (\<exists>b. map_of d ''banner_image'' = Some (JObj b))"
  shows "\<exists>info. parse_stream_info repr (JObj d) = Inr info"
  using assms(2,3)
  by (auto simp: parse_stream_info_off [OF assms(1)] channel_fields_def py_bind_def py_get_def
                 dict_get_def dict_get_default_def Let_def)

text \<open>
  C8 (the code departs from the claim). A payload whose \<^verbatim>\<open>user\<close> is null makes the parse
  raise: \<^verbatim>\<open>data.get("user", {})\<close> is \<^verbatim>\<open>None\<close>, which has no \<^verbatim>\<open>get\<close>.
\<close>

theorem parse_stream_info_null_user_raises:
  "parse_stream_info repr (JObj payload_null_user) = Inl AttributeError"
  by (simp add: parse_stream_info_def payload_null_user_def channel_fields_def
        py_bind_def py_get_def dict_get_def dict_get_default_def)

subsection \<open>The custom message\<close>

lemma replace_skip:
  "CHR ''{'' \<notin> set s \<Longrightarrow>
     py_replace (CHR ''{'' # q) v (s @ R) = s @ py_replace (CHR ''{'' # q) v R"
  by (induction s) auto

lemma placeholder_Cons: "placeholder n = CHR ''{'' # n @ ''}''"
  by (simp add: placeholder_def)

lemma replace_token_hit:
  "py_replace (placeholder n) v (placeholder n @ R) = v @ py_replace (placeholder n) v R"
  by (simp add: placeholder_Cons)

lemma placeholder_prefix_eq:
  assumes "CHR ''}'' \<notin> set n" and "CHR ''}'' \<notin> set p"
      and "take (length (p @ ''}'')) (n @ ''}'' @ R) = p @ ''}''"
  shows "n = p"
proof -
  from assms(3) have "n @ ''}'' @ R = (p @ ''}'') @ drop (length (p @ ''}'')) (n @ ''}'' @ R)"
    by (metis append_take_drop_id)
  then have "takeWhile (\<lambda>c. c \<noteq> CHR ''}'') (n @ CHR ''}'' # R)
           = takeWhile (\<lambda>c. c \<noteq> CHR ''}'') (p @ CHR ''}'' # drop (length (p @ ''}'')) (n @ ''}'' @ R))"
    by simp
  moreover have "takeWhile (\<lambda>c. c \<noteq> CHR ''}'') (n @ CHR ''}'' # R) = n"
    using assms(1) by (auto simp: takeWhile_tail)
  moreover have "takeWhile (\<lambda>c. c \<noteq> CHR ''}'') (p @ CHR ''}'' # X) = p" for X
    using assms(2) by (auto simp: takeWhile_tail)
  ultimately show ?thesis by simp
qed

lemma replace_token_miss:
  assumes "n \<noteq> p" and "CHR ''}'' \<notin> set n" and "CHR ''{'' \<notin> set n" and "CHR ''}'' \<notin> set p"
  shows "py_replace (placeholder p) v (placeholder n @ R) = placeholder n @ py_replace (placeholder p) v R"
proof -
  have no: "take (length (p @ ''}'')) (n @ ''}'' @ R) \<noteq> p @ ''}''"
    using placeholder_prefix_eq [OF assms(2) assms(4)] assms(1) by blast
  have "py_replace (placeholder p) v (placeholder n @ R)
          = CHR ''{'' # py_replace (placeholder p) v ((n @ ''}'') @ R)"
    using no by (simp add: placeholder_Cons)
  also have "py_replace (placeholder p) v ((n @ ''}'') @ R)
          = (n @ ''}'') @ py_replace (placeholder p) v R"
    unfolding placeholder_Cons using assms(3) by (intro replace_skip) simp
  finally show ?thesis by (simp add: placeholder_Cons)
qed

lemma replace_render:
  assumes "list_all wf_token toks" and "CHR ''}'' \<notin> set p"
  shows "py_replace (placeholder p) v (render toks) = render (map (subst1 p v) toks)"
  using assms(1)
proof (induction toks)
  case Nil
  then show ?case by (simp add: render_def placeholder_Cons)
next
  case (Cons t toks)
  then have ih: "py_replace (placeholder p) v (render toks) = render (map (subst1 p v) toks)"
    by simp
  show ?case
  proof (cases t)
    case (Lit s)
    with Cons.prems have "CHR ''{'' \<notin> set s" by simp
    then have "py_replace (placeholder p) v (s @ render toks)
                 = s @ py_replace (placeholder p) v (render toks)"
      unfolding placeholder_Cons by (rule replace_skip)
    with Lit ih show ?thesis by (simp add: render_def)
  next
    case (Tok n)
    with Cons.prems have n: "CHR ''{'' \<notin> set n" "CHR ''}'' \<notin> set n" by simp_all
    show ?thesis
    proof (cases "n = p")
      case True
      with Tok ih show ?thesis
        using replace_token_hit [of p v "render toks"] by (simp add: render_def)
    next
      case False
      with Tok ih show ?thesis
        using replace_token_miss [OF False n(2) n(1) assms(2), of v "render toks"]
        by (simp add: render_def)
    qed
  qed
qed

lemma wf_subst1:
  "CHR ''{'' \<notin> set v \<Longrightarrow> list_all wf_token toks \<Longrightarrow> list_all wf_token (map (subst1 p v) toks)"
proof (induction toks)
  case Nil
  then show ?case by simp
next
  case (Cons t toks)
  then show ?case by (cases t) auto
qed

lemma fill_subst1: "fill bs (map (subst1 n v) toks) = fill ((n, v) # bs) toks"
proof (induction toks)
  case Nil
  then show ?case by (simp add: fill_def)
next
  case (Cons t toks)
  then show ?case by (cases t) (auto simp: fill_def)
qed

lemma fill_Nil: "fill [] toks = render toks"
proof (induction toks)
  case Nil
  then show ?case by (simp add: fill_def render_def)
next
  case (Cons t toks)
  then show ?case by (cases t) (auto simp: fill_def render_def)
qed

lemma replace_seq_render:
  assumes "list_all wf_token toks"
      and "list_all (\<lambda>(n, v). CHR ''}'' \<notin> set n \<and> CHR ''{'' \<notin> set v) bs"
  shows "replace_seq bs (render toks) = fill bs toks"
  using assms
proof (induction bs arbitrary: toks)
  case Nil
  then show ?case by (simp add: replace_seq_def fill_Nil)
next
  case (Cons b bs)
  obtain n v where b: "b = (n, v)" by (cases b)
  from Cons.prems b have n: "CHR ''}'' \<notin> set n" and v: "CHR ''{'' \<notin> set v"
    and rest: "list_all (\<lambda>(n, v). CHR ''}'' \<notin> set n \<and> CHR ''{'' \<notin> set v) bs"
    by simp_all
  have "replace_seq (b # bs) (render toks)
          = replace_seq bs (py_replace (placeholder n) v (render toks))"
    by (simp add: replace_seq_def b)
  also have "\<dots> = replace_seq bs (render (map (subst1 n v) toks))"
    by (simp add: replace_render [OF Cons.prems(1) n])
  also have "\<dots> = fill bs (map (subst1 n v) toks)"
    by (rule Cons.IH [OF wf_subst1 [OF v Cons.prems(1)] rest])
  finally show ?case by (simp add: fill_subst1 b)
qed

lemma fill_cong_map_of: "map_of bs = map_of bs' \<Longrightarrow> fill bs toks = fill bs' toks"
proof (induction toks)
  case Nil
  then show ?case by (simp add: fill_def)
next
  case (Cons t toks)
  then show ?case by (cases t) (auto simp: fill_def)
qed

lemma apply_placeholders_seq:
  "apply_placeholders msg streamer game title url viewers
     = replace_seq (placeholder_values streamer game title url viewers) msg"
  by (simp add: apply_placeholders_def replace_seq_def placeholder_values_def placeholder_def Let_def)

lemma replace_absent:
  assumes "old \<noteq> []" and "\<not> sublist old s"
  shows "py_replace old new s = s"
  using assms(2)
proof (induction s)
  case Nil
  with assms(1) show ?case by simp
next
  case (Cons c cs)
  have "take (length old) (c # cs) \<noteq> old"
  proof
    assume "take (length old) (c # cs) = old"
    then have "prefix old (c # cs)" by (metis take_is_prefix)
    then have "sublist old (c # cs)" by (rule prefix_imp_sublist)
    with Cons.prems show False by simp
  qed
  moreover have "\<not> sublist old cs"
    using Cons.prems by (auto simp: sublist_Cons_right)
  ultimately show ?case using assms(1) Cons.IH by simp
qed

lemma apply_placeholders_absent:
  assumes "list_all (\<lambda>n. \<not> sublist (placeholder n) msg) placeholder_names"
  shows "apply_placeholders msg streamer game title url viewers = msg"
proof -
  have ne: "placeholder n \<noteq> []" for n by (simp add: placeholder_def)
  have r: "py_replace (placeholder n) v msg = msg" if "n \<in> set placeholder_names" for n v
    using assms that ne replace_absent by (auto simp: list_all_iff)
  have "replace_seq (placeholder_values streamer game title url viewers) msg = msg"
    using r by (simp add: replace_seq_def placeholder_values_def placeholder_names_def)
  then show ?thesis by (simp add: apply_placeholders_seq)
qed

lemma custom_message_subst_strings:
  assumes "display_name info = JStr streamer" and "category info = JStr game"
      and "stream_title info = JStr title" and "channel_url info = JStr url"
  shows "custom_message_subst repr msg info
           = Inr (apply_placeholders msg streamer game title url (py_str repr (viewer_count info)))"
  using assms by (simp add: custom_message_subst_def as_str_def py_bind_def)

lemma replace_seq_any_order:
  assumes wf: "list_all wf_token toks"
      and vals: "list_all (\<lambda>(n, v). CHR ''{'' \<notin> set v) (placeholder_values streamer game title url viewers)"
      and dist: "distinct (map fst bs)"
      and perm: "set bs = set (placeholder_values streamer game title url viewers)"
  shows "replace_seq bs (render toks) = fill (placeholder_values streamer game title url viewers) toks"
proof -
  let ?pv = "placeholder_values streamer game title url viewers"
  have names: "CHR ''}'' \<notin> set n" if "(n, v) \<in> set ?pv" for n v
    using that by (auto simp: placeholder_values_def)
  have "list_all (\<lambda>(n, v). CHR ''}'' \<notin> set n \<and> CHR ''{'' \<notin> set v) bs"
    using vals names perm by (auto simp: list_all_iff)
  then have "replace_seq bs (render toks) = fill bs toks"
    by (rule replace_seq_render [OF wf])
  moreover have "distinct (map fst ?pv)" by (simp add: placeholder_values_def)
  then have "map_of bs = map_of ?pv"
    using dist perm by (simp add: map_of_inject_set)
  then have "fill bs toks = fill ?pv toks" by (rule fill_cong_map_of)
  ultimately show ?thesis by simp
qed


text \<open>
  Where the source does substitute literally. A template in which none of the five
  placeholders occurs is returned as it is. When every opening brace of the template
  starts a token \<^verbatim>\<open>{name}\<close> whose name holds no brace, and no value holds an opening
  brace, the result is the template with each of the five placeholders replaced by its
  value at every occurrence and every other token left as it is, and the five
  replacements applied in any other order give the same text.
\<close>

theorem custom_message_subst_wellformed:
  assumes "display_name info = JStr streamer" and "category info = JStr game"
      and "stream_title info = JStr title" and "channel_url info = JStr url"
      and "viewers = py_str repr (viewer_count info)"
  shows "(list_all (\<lambda>n. \<not> sublist (placeholder n) msg) placeholder_names \<longrightarrow>
            custom_message_subst repr msg info = Inr msg)
       \<and> (list_all wf_token toks
            \<and> list_all (\<lambda>(n, v). CHR ''{'' \<notin> set v) (placeholder_values streamer game title url viewers)
          \<longrightarrow>
            custom_message_subst repr (render toks) info
              = Inr (fill (placeholder_values streamer game title url viewers) toks)
            \<and> (distinct (map fst bs)
                 \<and> set bs = set (placeholder_values streamer game title url viewers) \<longrightarrow>
                replace_seq bs (render toks)
                  = fill (placeholder_values streamer game title url viewers) toks))"
proof -
  let ?pv = "placeholder_values streamer game title url viewers"
  have eq: "custom_message_subst repr m info
              = Inr (apply_placeholders m streamer game title url viewers)" for m
    using custom_message_subst_strings [OF assms(1-4)] assms(5) by simp
  have a: "custom_message_subst repr msg info = Inr msg"
    if "list_all (\<lambda>n. \<not> sublist (placeholder n) msg) placeholder_names"
    using apply_placeholders_absent [OF that] by (simp add: eq)
  have b: "custom_message_subst repr (render toks) info = Inr (fill ?pv toks)"
    if "list_all wf_token toks" and "list_all (\<lambda>(n, v). CHR ''{'' \<notin> set v) ?pv"
  proof -
    have "distinct (map fst ?pv)" by (simp add: placeholder_values_def)
    from replace_seq_any_order [OF that this refl] show ?thesis
      by (simp add: eq apply_placeholders_seq)
  qed
  have c: "replace_seq bs (render toks) = fill ?pv toks"
    if "list_all wf_token toks" and "list_all (\<lambda>(n, v). CHR ''{'' \<notin> set v) ?pv"
      and "distinct (map fst bs)" and "set bs = set ?pv"
    using that by (rule replace_seq_any_order)
  from a b c show ?thesis by blast
qed


lemma render_template_example:
  "render template_example
     = ''{streamer} playing {game} '' @ [CHR 0xE2, CHR 0x80, CHR 0x94] @ '' {url}''"
  by (simp add: template_example_def render_def placeholder_def)

lemma dec_nat_1200: "dec_nat 1200 = ''1200''"
  by (simp add: dec_nat.simps)

theorem custom_message_subst_wellformed_witness:
  "custom_message_subst repr_none
      (''{streamer} playing {game} '' @ [CHR 0xE2, CHR 0x80, CHR 0x94] @ '' {url}'') info_live
     = Inr (''Nova playing Chess '' @ [CHR 0xE2, CHR 0x80, CHR 0x94] @ '' https://kick.com/nova'')
   \<and> replace_seq [(''viewers'', ''1200''), (''url'', ''https://kick.com/nova''),
                   (''title'', ''Chess time''), (''game'', ''Chess''), (''streamer'', ''Nova'')]
        (''{streamer} playing {game} '' @ [CHR 0xE2, CHR 0x80, CHR 0x94] @ '' {url}'')
     = ''Nova playing Chess '' @ [CHR 0xE2, CHR 0x80, CHR 0x94] @ '' https://kick.com/nova''
   \<and> custom_message_subst repr_none ''{name} is live'' info_live = Inr ''{name} is live''"
proof -
  let ?pv = "placeholder_values ''Nova'' ''Chess'' ''Chess time'' ''https://kick.com/nova'' ''1200''"
  let ?bs = "[(''viewers'', ''1200''), (''url'', ''https://kick.com/nova''),
              (''title'', ''Chess time''), (''game'', ''Chess''), (''streamer'', ''Nova'')]"
  have h1: "display_name info_live = JStr ''Nova''" and h2: "category info_live = JStr ''Chess''"
    and h3: "stream_title info_live = JStr ''Chess time''"
    and h4: "channel_url info_live = JStr ''https://kick.com/nova''"
    by (simp_all add: info_live_def)
  have h5: "''1200'' = py_str repr_none (viewer_count info_live)"
    by (simp add: info_live_def py_str_def dec_nat_1200)
  note t = custom_message_subst_wellformed [OF h1 h2 h3 h4 h5,
             where toks = template_example and bs = ?bs and msg = "''{name} is live''"]
  have absent: "list_all (\<lambda>n. \<not> sublist (placeholder n) ''{name} is live'') placeholder_names"
    by (simp add: placeholder_names_def placeholder_def sublist_code prefix_code)
  have wf: "list_all wf_token template_example"
    by (simp add: template_example_def)
  have vals: "list_all (\<lambda>(n, v). CHR ''{'' \<notin> set v) ?pv"
    by (simp add: placeholder_values_def)
  have perm: "distinct (map fst ?bs)" "set ?bs = set ?pv"
    by (auto simp: placeholder_values_def)
  have f: "fill ?pv template_example
             = ''Nova playing Chess '' @ [CHR 0xE2, CHR 0x80, CHR 0x94] @ '' https://kick.com/nova''"
    by (simp add: fill_def template_example_def placeholder_values_def)
  from t absent wf vals perm show ?thesis
    unfolding f render_template_example by blast
qed


text \<open>
  C6 (the code departs from the claim). The claim, like the help text of
  \<^verbatim>\<open>kickalert message\<close> (lines 655 to 660: \<^verbatim>\<open>{title}\<close> is the stream title), asks for each
  placeholder to be replaced by its value, whatever the order of the replacements. The
  source replaces one placeholder after the other on the result of the replacement
  before, so a value that holds a later placeholder is substituted again. With the stream
  title \<^verbatim>\<open>{url}\<close> the template \<^verbatim>\<open>{title}\<close> becomes the channel URL, where the literal
  substitution gives the title, \<^verbatim>\<open>{url}\<close>, and so do the same five replacements with
  \<^verbatim>\<open>{url}\<close> first.
\<close>

theorem custom_message_subst_resubstitutes:
  "custom_message_subst repr_none ''{title}'' (info_live\<lparr>stream_title := JStr ''{url}''\<rparr>)
     = Inr ''https://kick.com/nova''
   \<and> fill (placeholder_values ''Nova'' ''Chess'' ''{url}'' ''https://kick.com/nova'' ''1200'')
        [Tok ''title'']
     = ''{url}''
   \<and> replace_seq [(''url'', ''https://kick.com/nova''), (''streamer'', ''Nova''), (''game'', ''Chess''),
                   (''title'', ''{url}''), (''viewers'', ''1200'')] ''{title}''
     = ''{url}''"
  by (simp add: custom_message_subst_def as_str_def py_bind_def info_live_def
        apply_placeholders_def replace_seq_def placeholder_def fill_def placeholder_values_def)

subsection \<open>The transition engine\<close>

lemma map_of_dict_set: "map_of (dict_set d k v) = (map_of d)(k \<mapsto> v)"
  by (induction d) (auto simp: fun_eq_iff)

lemma dict_get_dict_set: "dict_get (dict_set d k v) k' = (if k' = k then v else dict_get d k')"
  by (simp add: dict_get_def map_of_dict_set)

lemma py_eq_refl: "py_eq x x"
proof (induction x)
  case (JList xs)
  then show ?case by (simp add: list_all2_same)
next
  case (JObj kvs)
  have "list_all (\<lambda>(k, v). case map_of kvs k of None \<Rightarrow> False
           | Some w \<Rightarrow> (if map_of kvs k = Some v then py_eq v w else True)) kvs"
    unfolding list_all_iff
  proof (clarify)
    fix k v assume kv: "(k, v) \<in> set kvs"
    then obtain w where w: "map_of kvs k = Some w"
      by (metis map_of_eq_None_iff not_None_eq fst_conv image_eqI)
    have "py_eq v v" using JObj kv by (auto simp: snds.simps)
    with w show "case map_of kvs k of None \<Rightarrow> False
           | Some w \<Rightarrow> (if map_of kvs k = Some v then py_eq v w else True)"
      by auto
  qed
  then show ?case by (simp add: list_all_iff)
qed simp_all

lemma went_offline_no_send:
  "a \<in> set (actions (went_offline w uname cfg auto_delete ch info store)) \<Longrightarrow> \<not> is_send a"
  by (auto simp: went_offline_def is_send_def Let_def split: option.splits sum.splits if_splits)

lemma still_live_no_send:
  "a \<in> set (actions (still_live w cfg style sv sc ch info store)) \<Longrightarrow> \<not> is_send a"
  by (auto simp: still_live_def is_send_def Let_def split: option.splits sum.splits if_splits)

lemma still_live_saved:
  "saved (still_live w cfg style sv sc ch info store) = store"
  by (auto simp: still_live_def Let_def split: option.splits sum.splits if_splits)

lemma went_live_sends:
  "n_sends (went_live w g uname cfg style sv sc ch prid info store)
     = (if renders w g cfg style sv sc prid info then 1 else 0)"
  by (auto simp: n_sends_def went_live_def renders_def is_send_def split: sum.splits)

lemma went_live_no_message_op:
  "a \<in> set (actions (went_live w g uname cfg style sv sc ch prid info store)) \<Longrightarrow> \<not> is_message_op a"
  by (auto simp: went_live_def is_message_op_def split: sum.splits)

lemma went_offline_sends: "n_sends (went_offline w uname cfg ad ch info store) = 0"
  by (auto simp: n_sends_def filter_empty_conv dest: went_offline_no_send)

lemma still_live_sends: "n_sends (still_live w cfg style sv sc ch info store) = 0"
  by (auto simp: n_sends_def filter_empty_conv dest: still_live_no_send)

lemma n_sends_nil: "n_sends \<lparr>raised = x, actions = [], saved = s\<rparr> = 0"
  by (simp add: n_sends_def)

lemma n_sends_request: "n_sends (r\<lparr>actions := HttpGet u # actions r\<rparr>) = n_sends r"
  by (simp add: n_sends_def is_send_def)

lemma n_sends_request_only: "n_sends \<lparr>raised = x, actions = [HttpGet u], saved = s\<rparr> = 0"
  by (simp add: n_sends_def is_send_def)

lemma transition_sends:
  "n_sends (transition w g uname cfg style sv sc ad ch prid info store)
     = (if truthy (is_live info) \<and> new_session cfg info \<and> renders w g cfg style sv sc prid info
        then 1 else 0)"
  by (simp add: transition_def Let_def went_live_sends went_offline_sends still_live_sends n_sends_nil)

lemma check_sends:
  "n_sends (check_single_streamer w g uname cfg style sv sc ad gcid gprid store)
     = (case parse_stream_info (py_repr w) (snd (fetch_channel_data (network w) uname)) of
          Inl e \<Rightarrow> 0
        | Inr info \<Rightarrow>
           (if snd (fetch_channel_data (network w) uname) \<noteq> JNull
               \<and> truthy (resolve_channel_id cfg gcid)
               \<and> get_channel g (resolve_channel_id cfg gcid) \<noteq> None
               \<and> truthy (is_live info) \<and> new_session cfg info
               \<and> renders w g cfg style sv sc (py_or (dict_get cfg ''ping_role_id'') (opt_json gprid)) info
            then 1 else 0))"
proof (cases "parse_stream_info (py_repr w) (snd (fetch_channel_data (network w) uname))")
  case (Inl e)
  then show ?thesis
    by (simp add: check_single_streamer_def Let_def n_sends_request_only)
next
  case (Inr info)
  show ?thesis
  proof (cases "get_channel g (resolve_channel_id cfg gcid)")
    case None
    with Inr show ?thesis
      by (simp add: check_single_streamer_def Let_def n_sends_request_only)
  next
    case (Some ch)
    with Inr show ?thesis
      by (simp add: check_single_streamer_def Let_def n_sends_request_only n_sends_request
            transition_sends)
  qed
qed

lemma check_example_first:
  "check_single_streamer (world_of payload_live) guild_one ''nova''
      (record_of (JNum 1) JNull (JBool False) JNull) ''detailed'' True True False None None
      [(''nova'', record_of (JNum 1) JNull (JBool False) JNull)]
   = \<lparr>raised = None,
      actions = [HttpGet ''https://kick.com/api/v2/channels/nova'', Send 1 None ''live''],
      saved = [(''nova'', record_of (JNum 1) (JNum 4242) (JBool True) (JNum 7))]\<rparr>"
  by (simp add: check_single_streamer_def fetch_channel_data_def world_of_def parse_payload_live
        resolve_channel_id_def record_of_def dict_get_def dict_get_default_def py_or_def opt_json_def
        guild_one_def transition_def new_session_def went_live_def live_content_def info_live_def
        request_url_def KICK_API_BASE_def py_lower_def lower_char_def)

lemma check_example_second:
  "check_single_streamer (world_of payload_live) guild_one ''nova''
      (record_of (JNum 1) (JNum 4242) (JBool True) (JNum 7)) ''detailed'' True True False None None
      [(''nova'', record_of (JNum 1) (JNum 4242) (JBool True) (JNum 7))]
   = \<lparr>raised = None,
      actions = [HttpGet ''https://kick.com/api/v2/channels/nova'',
                 FetchMessage 1 (JNum 4242), Edit (JNum 4242) False ''live''],
      saved = [(''nova'', record_of (JNum 1) (JNum 4242) (JBool True) (JNum 7))]\<rparr>"
  by (simp add: check_single_streamer_def fetch_channel_data_def world_of_def parse_payload_live
        resolve_channel_id_def record_of_def dict_get_def dict_get_default_def py_or_def opt_json_def
        guild_one_def transition_def new_session_def still_live_def info_live_def Let_def
        request_url_def KICK_API_BASE_def py_lower_def lower_char_def)

lemma parse_payload_live_noid:
  "parse_stream_info repr (JObj payload_live_noid) = Inr info_live_noid"
  by (simp add: parse_stream_info_def payload_live_noid_def info_live_noid_def channel_fields_def
        live_fields_def parse_category_def parse_tags_def parse_thumbnail_def
        py_bind_def py_get_def dict_get_def dict_get_default_def
        py_str_def KICK_BASE_URL_def channel_info.defs)

lemmas example_defs =
  check_single_streamer_def fetch_channel_data_def world_of_def guild_one_def record_of_def
  resolve_channel_id_def dict_get_def dict_get_default_def py_or_def opt_json_def
  transition_def new_session_def went_live_def went_offline_def still_live_def live_content_def
  renders_def request_url_def KICK_API_BASE_def py_lower_def lower_char_def Let_def
  parse_payload_live parse_payload_offline parse_payload_live_noid
  info_live_def info_offline_def info_live_noid_def

lemma check_example_noid:
  "check_single_streamer (world_of payload_live_noid) guild_one ''nova''
      (record_of (JNum 1) (JNum 9) (JBool True) (JNum 5)) ''detailed'' True True False None None
      [(''nova'', record_of (JNum 1) (JNum 9) (JBool True) (JNum 5))]
   = \<lparr>raised = None,
      actions = [HttpGet ''https://kick.com/api/v2/channels/nova'',
                 FetchMessage 1 (JNum 9), Edit (JNum 9) False ''live''],
      saved = [(''nova'', record_of (JNum 1) (JNum 9) (JBool True) (JNum 5))]\<rparr>"
  by (simp add: example_defs)

lemma check_example_no_channel:
  "check_single_streamer (world_of payload_offline) guild_one ''nova''
      (record_of JNull (JNum 9) (JBool True) (JNum 7)) ''detailed'' True True False None None
      [(''nova'', record_of JNull (JNum 9) (JBool True) (JNum 7))]
   = \<lparr>raised = None,
      actions = [HttpGet ''https://kick.com/api/v2/channels/nova''],
      saved = [(''nova'', record_of JNull (JNum 9) (JBool True) (JNum 7))]\<rparr>"
  by (simp add: example_defs)

lemma check_example_send_forbidden:
  "check_single_streamer ((world_of payload_live)\<lparr>send_result := Inl Forbidden\<rparr>) guild_one ''nova''
      (record_of (JNum 1) JNull (JBool False) JNull) ''detailed'' True True False None None
      [(''nova'', record_of (JNum 1) JNull (JBool False) JNull)]
   = \<lparr>raised = None,
      actions = [HttpGet ''https://kick.com/api/v2/channels/nova'', Send 1 None ''live''],
      saved = [(''nova'', record_of (JNum 1) JNull (JBool False) JNull)]\<rparr>"
  by (simp add: example_defs)

lemma went_live_send_fails:
  assumes "send_result w = Inl err"
  shows "saved (went_live w g uname cfg style sv sc ch prid info store) = store"
    and "Send c x e \<in> set (actions (went_live w g uname cfg style sv sc ch prid info store))
         \<Longrightarrow> raised (went_live w g uname cfg style sv sc ch prid info store) = None"
  using assms by (auto simp: went_live_def split: sum.splits)

lemma transition_send_is_went_live:
  assumes "Send c x e \<in> set (actions (transition w g uname cfg style sv sc ad ch prid info store))"
  shows "transition w g uname cfg style sv sc ad ch prid info store
           = went_live w g uname cfg style sv sc ch prid info store"
proof -
  have "\<not> is_send (Send c x e) \<Longrightarrow> False" by (simp add: is_send_def)
  then show ?thesis
    using assms went_offline_no_send [of "Send c x e" w uname cfg ad ch info store]
          still_live_no_send [of "Send c x e" w cfg style sv sc ch info store]
    by (auto simp: transition_def Let_def split: if_splits)
qed

lemma went_offline_saved:
  assumes "map_of store uname = Some r"
      and "build_offline_embed w info = Inr emb"
  shows "raised (went_offline w uname cfg ad ch info store) = None
       \<and> saved (went_offline w uname cfg ad ch info store)
           = dict_set store uname
               (dict_set (dict_set r ''is_live'' (JBool False)) ''last_message_id'' JNull)"
  using assms
  by (simp add: went_offline_def Let_def split: option.splits)

lemma transition_offline:
  assumes "\<not> truthy (is_live info)"
      and "truthy (dict_get_default cfg ''is_live'' (JBool False))"
  shows "transition w g uname cfg style sv sc ad ch prid info store
           = went_offline w uname cfg ad ch info store"
  using assms by (simp add: transition_def Let_def)

lemma check_resolved:
  assumes "snd (fetch_channel_data (network w) uname) \<noteq> JNull"
      and "parse_stream_info (py_repr w) (snd (fetch_channel_data (network w) uname)) = Inr info"
      and "truthy (resolve_channel_id cfg gcid)"
      and "get_channel g (resolve_channel_id cfg gcid) = Some ch"
  shows "check_single_streamer w g uname cfg style sv sc ad gcid gprid store
           = (let r = transition w g uname cfg style sv sc ad ch
                        (py_or (dict_get cfg ''ping_role_id'') (opt_json gprid)) info store
              in r\<lparr>actions := HttpGet (request_url uname) # actions r\<rparr>)"
  using assms by (simp add: check_single_streamer_def Let_def)

lemma went_live_saved_ok:
  assumes "send_result w = Inr mid"
      and "map_of store uname = Some r"
      and "renders w g cfg style sv sc prid info"
  shows "saved (went_live w g uname cfg style sv sc ch prid info store)
           = dict_set store uname
               (dict_set (dict_set (dict_set r ''is_live'' (JBool True))
                  ''last_stream_id'' (stream_id info)) ''last_message_id'' (JNum mid))"
  using assms by (auto simp: went_live_def renders_def split: sum.splits)

lemma transition_live:
  assumes "truthy (is_live info)" and "new_session cfg info"
  shows "transition w g uname cfg style sv sc ad ch prid info store
           = went_live w g uname cfg style sv sc ch prid info store"
  using assms by (simp add: transition_def Let_def)

lemma same_session_no_send:
  assumes "dict_get r' ''is_live'' = JBool True"
      and "dict_get r' ''last_stream_id'' = sid"
      and "\<forall>info2. parse_stream_info (py_repr w2) (snd (fetch_channel_data (network w2) uname)) = Inr info2
              \<longrightarrow> stream_id info2 = sid"
  shows "n_sends (check_single_streamer w2 g2 uname r' style2 sv2 sc2 ad2 gcid2 gprid2 store2) = 0"
proof -
  have live: "dict_get_default r' ''is_live'' (JBool False) = JBool True"
    using assms(1) by (auto simp: dict_get_def dict_get_default_def split: option.splits)
  have "\<not> new_session r' info2" if "stream_id info2 = sid" for info2
    using that assms(2) live by (simp add: new_session_def Let_def py_eq_refl)
  with assms(3) show ?thesis
    by (auto simp: check_sends split: sum.splits)
qed

text \<open>
  C1 (as the code has it). Take a check whose fetch returns a live stream, whose channel
  resolves and whose announcement can be built. It sends once when the stored record is
  not live, or when the fetched stream id is truthy (neither null nor 0) and differs from
  the stored one; otherwise it sends nothing. A check that sends makes no
  \<^verbatim>\<open>fetch_message\<close>, \<^verbatim>\<open>edit\<close> or \<^verbatim>\<open>delete\<close>. When the send succeeds and the record is still
  stored, the record becomes live with the new stream id and message id, and a later
  check of that record whose fetch has the same stream id sends nothing, whatever else
  the later world does.
\<close>

theorem went_live_send_iff:
  assumes "snd (fetch_channel_data (network w) uname) \<noteq> JNull"
      and "parse_stream_info (py_repr w) (snd (fetch_channel_data (network w) uname)) = Inr info"
      and "truthy (is_live info)"
      and "truthy (resolve_channel_id cfg gcid)"
      and "get_channel g (resolve_channel_id cfg gcid) = Some ch"
      and "renders w g cfg style sv sc (py_or (dict_get cfg ''ping_role_id'') (opt_json gprid)) info"
  shows "n_sends (check_single_streamer w g uname cfg style sv sc ad gcid gprid store)
           = (if \<not> truthy (dict_get_default cfg ''is_live'' (JBool False))
                 \<or> (truthy (stream_id info)
                     \<and> \<not> py_eq (stream_id info) (dict_get cfg ''last_stream_id''))
              then 1 else 0)
       \<and> (n_sends (check_single_streamer w g uname cfg style sv sc ad gcid gprid store) = 1 \<longrightarrow>
            (\<forall>a \<in> set (actions (check_single_streamer w g uname cfg style sv sc ad gcid gprid store)).
               \<not> is_message_op a))
       \<and> (n_sends (check_single_streamer w g uname cfg style sv sc ad gcid gprid store) = 1
            \<and> send_result w = Inr mid \<and> map_of store uname = Some r \<longrightarrow>
            (\<exists>r'. map_of (saved (check_single_streamer w g uname cfg style sv sc ad gcid gprid store)) uname
                      = Some r'
                 \<and> dict_get r' ''is_live'' = JBool True
                 \<and> dict_get r' ''last_stream_id'' = stream_id info
                 \<and> dict_get r' ''last_message_id'' = JNum mid
                 \<and> ((\<forall>info2. parse_stream_info (py_repr w2)
                                 (snd (fetch_channel_data (network w2) uname)) = Inr info2
                               \<longrightarrow> stream_id info2 = stream_id info) \<longrightarrow>
                      n_sends (check_single_streamer w2 g2 uname r' style2 sv2 sc2 ad2 gcid2 gprid2
                                 (saved (check_single_streamer w g uname cfg style sv sc ad gcid gprid store)))
                        = 0)))"
proof -
  let ?prid = "py_or (dict_get cfg ''ping_role_id'') (opt_json gprid)"
  let ?r = "check_single_streamer w g uname cfg style sv sc ad gcid gprid store"
  have n: "n_sends ?r = (if new_session cfg info then 1 else 0)"
    using assms by (simp add: check_sends)
  have first: "n_sends ?r
           = (if \<not> truthy (dict_get_default cfg ''is_live'' (JBool False))
                 \<or> (truthy (stream_id info)
                     \<and> \<not> py_eq (stream_id info) (dict_get cfg ''last_stream_id''))
              then 1 else 0)"
    unfolding n by (simp add: new_session_def Let_def)
  have eq: "?r = (let r = went_live w g uname cfg style sv sc ch ?prid info store
                  in r\<lparr>actions := HttpGet (request_url uname) # actions r\<rparr>)"
    if "n_sends ?r = 1"
  proof -
    from that have "(if new_session cfg info then 1 else 0) = (1::nat)" unfolding n .
    then have "new_session cfg info" by (cases "new_session cfg info") simp_all
    then show ?thesis
      by (simp add: check_resolved [OF assms(1,2,4,5)] transition_live [OF assms(3)])
  qed
  have second: "\<forall>a \<in> set (actions ?r). \<not> is_message_op a" if "n_sends ?r = 1"
    using went_live_no_message_op [of _ w g uname cfg style sv sc ch ?prid info store]
    by (auto simp: eq [OF that] Let_def is_message_op_def)
  have third: "\<exists>r'. map_of (saved ?r) uname = Some r'
                 \<and> dict_get r' ''is_live'' = JBool True
                 \<and> dict_get r' ''last_stream_id'' = stream_id info
                 \<and> dict_get r' ''last_message_id'' = JNum mid
                 \<and> ((\<forall>info2. parse_stream_info (py_repr w2)
                                 (snd (fetch_channel_data (network w2) uname)) = Inr info2
                               \<longrightarrow> stream_id info2 = stream_id info) \<longrightarrow>
                      n_sends (check_single_streamer w2 g2 uname r' style2 sv2 sc2 ad2 gcid2 gprid2
                                 (saved ?r)) = 0)"
    if one: "n_sends ?r = 1" and ok: "send_result w = Inr mid" and rec: "map_of store uname = Some r"
  proof -
    let ?r' = "dict_set (dict_set (dict_set r ''is_live'' (JBool True))
                  ''last_stream_id'' (stream_id info)) ''last_message_id'' (JNum mid)"
    have sv: "saved ?r = dict_set store uname ?r'"
      using went_live_saved_ok [OF ok rec assms(6)] by (simp add: eq [OF one] Let_def)
    have m: "map_of (saved ?r) uname = Some ?r'" by (simp add: sv map_of_dict_set)
    have l: "dict_get ?r' ''is_live'' = JBool True" by (simp add: dict_get_dict_set)
    have s: "dict_get ?r' ''last_stream_id'' = stream_id info" by (simp add: dict_get_dict_set)
    have i: "dict_get ?r' ''last_message_id'' = JNum mid" by (simp add: dict_get_dict_set)
    from m l s i same_session_no_send [OF l s] show ?thesis by blast
  qed
  from first second third show ?thesis by blast
qed

theorem went_live_send_iff_witness:
  "n_sends (check_single_streamer (world_of payload_live) guild_one ''nova''
              (record_of (JNum 1) JNull (JBool False) JNull) ''detailed'' True True False None None
              [(''nova'', record_of (JNum 1) JNull (JBool False) JNull)]) = 1
   \<and> saved (check_single_streamer (world_of payload_live) guild_one ''nova''
              (record_of (JNum 1) JNull (JBool False) JNull) ''detailed'' True True False None None
              [(''nova'', record_of (JNum 1) JNull (JBool False) JNull)])
       = [(''nova'', record_of (JNum 1) (JNum 4242) (JBool True) (JNum 7))]
   \<and> n_sends (check_single_streamer (world_of payload_live) guild_one ''nova''
              (record_of (JNum 1) (JNum 4242) (JBool True) (JNum 7)) ''detailed'' True True False None None
              [(''nova'', record_of (JNum 1) (JNum 4242) (JBool True) (JNum 7))]) = 0"
proof -
  let ?w = "world_of payload_live"
  let ?rec = "record_of (JNum 1) JNull (JBool False) JNull"
  have h1: "snd (fetch_channel_data (network ?w) ''nova'') \<noteq> JNull"
    by (simp add: fetch_channel_data_def world_of_def)
  have h2: "parse_stream_info (py_repr ?w) (snd (fetch_channel_data (network ?w) ''nova''))
              = Inr info_live"
    by (simp add: fetch_channel_data_def world_of_def parse_payload_live)
  have h3: "truthy (is_live info_live)"
    by (simp add: info_live_def)
  have h4: "truthy (resolve_channel_id ?rec None)"
    by (simp add: example_defs)
  have h5: "get_channel guild_one (resolve_channel_id ?rec None) = Some 1"
    by (simp add: example_defs)
  have h6: "renders ?w guild_one ?rec ''detailed'' True True
              (py_or (dict_get ?rec ''ping_role_id'') (opt_json None)) info_live"
    by (simp add: example_defs)
  note t = went_live_send_iff [OF h1 h2 h3 h4 h5 h6,
      where ad = False and store = "[(''nova'', ?rec)]" and mid = 4242 and r = ?rec
        and ?w2.0 = ?w and ?g2.0 = guild_one and ?style2.0 = "''detailed''" and ?sv2.0 = True
        and ?sc2.0 = True and ?ad2.0 = False and ?gcid2.0 = None and ?gprid2.0 = None]
  from t show ?thesis
    by (simp add: check_example_first check_example_second n_sends_def is_send_def)
qed

text \<open>The claim as written fails. The stored record is live with the stream id 5 and the
  fetch is live without a stream id: the ids differ, yet nothing is sent, and the old
  message is edited.\<close>

theorem went_live_send_iff_counterexample:
  "parse_stream_info repr_none (JObj payload_live_noid) = Inr info_live_noid
   \<and> truthy (is_live info_live_noid)
   \<and> \<not> py_eq (stream_id info_live_noid)
          (dict_get (record_of (JNum 1) (JNum 9) (JBool True) (JNum 5)) ''last_stream_id'')
   \<and> actions (check_single_streamer (world_of payload_live_noid) guild_one ''nova''
                (record_of (JNum 1) (JNum 9) (JBool True) (JNum 5)) ''detailed'' True True False
                None None [(''nova'', record_of (JNum 1) (JNum 9) (JBool True) (JNum 5))])
       = [HttpGet ''https://kick.com/api/v2/channels/nova'',
          FetchMessage 1 (JNum 9), Edit (JNum 9) False ''live'']"
proof -
  have "\<not> py_eq (stream_id info_live_noid)
          (dict_get (record_of (JNum 1) (JNum 9) (JBool True) (JNum 5)) ''last_stream_id'')"
    by (simp add: info_live_noid_def record_of_def dict_get_def)
  moreover have "truthy (is_live info_live_noid)"
    by (simp add: info_live_noid_def)
  ultimately show ?thesis
    by (simp add: parse_payload_live_noid check_example_noid)
qed

text \<open>
  C2 (as the code has it). Take a check whose fetch returns a stream that is not live
  while the stored record is live, whose channel resolves, whose record is still stored
  and whose offline embed can be built. Afterwards the stored record has
  \<^verbatim>\<open>is_live\<close> false and \<^verbatim>\<open>last_message_id\<close> null, whether \<^verbatim>\<open>fetch_message\<close>, \<^verbatim>\<open>delete\<close> and
  \<^verbatim>\<open>edit\<close> succeed or fail.
\<close>

theorem went_offline_clears_state:
  assumes "snd (fetch_channel_data (network w) uname) \<noteq> JNull"
      and "parse_stream_info (py_repr w) (snd (fetch_channel_data (network w) uname)) = Inr info"
      and "\<not> truthy (is_live info)"
      and "truthy (dict_get_default cfg ''is_live'' (JBool False))"
      and "truthy (resolve_channel_id cfg gcid)"
      and "get_channel g (resolve_channel_id cfg gcid) = Some ch"
      and "map_of store uname = Some r"
      and "build_offline_embed w info = Inr emb"
  shows "\<exists>r'. map_of (saved (check_single_streamer
                    (w\<lparr>fetch_message_result := fm, delete_result := dl, edit_result := ed\<rparr>)
                    g uname cfg style sv sc ad gcid gprid store)) uname = Some r'
            \<and> dict_get r' ''is_live'' = JBool False
            \<and> dict_get r' ''last_message_id'' = JNull"
proof -
  let ?w = "w\<lparr>fetch_message_result := fm, delete_result := dl, edit_result := ed\<rparr>"
  have a1: "snd (fetch_channel_data (network ?w) uname) \<noteq> JNull" using assms(1) by simp
  have a2: "parse_stream_info (py_repr ?w) (snd (fetch_channel_data (network ?w) uname)) = Inr info"
    using assms(2) by simp
  have a8: "build_offline_embed ?w info = Inr emb" using assms(8) by simp
  have "saved (check_single_streamer ?w g uname cfg style sv sc ad gcid gprid store)
          = dict_set store uname
              (dict_set (dict_set r ''is_live'' (JBool False)) ''last_message_id'' JNull)"
    using went_offline_saved [OF assms(7) a8]
    by (simp add: check_resolved [OF a1 a2 assms(5,6)] transition_offline [OF assms(3,4)] Let_def)
  then show ?thesis
    by (simp add: map_of_dict_set dict_get_dict_set)
qed

theorem went_offline_clears_state_witness:
  "\<exists>r'. map_of (saved (check_single_streamer
              ((world_of payload_offline)\<lparr>fetch_message_result := Some NotFound,
                   delete_result := Some Forbidden, edit_result := Some HTTPException\<rparr>)
              guild_one ''nova'' (record_of (JNum 1) (JNum 4242) (JBool True) (JNum 7))
              ''detailed'' True True False None None
              [(''nova'', record_of (JNum 1) (JNum 4242) (JBool True) (JNum 7))])) ''nova'' = Some r'
        \<and> dict_get r' ''is_live'' = JBool False
        \<and> dict_get r' ''last_message_id'' = JNull"
proof -
  let ?w = "world_of payload_offline"
  let ?rec = "record_of (JNum 1) (JNum 4242) (JBool True) (JNum 7)"
  have h1: "snd (fetch_channel_data (network ?w) ''nova'') \<noteq> JNull"
    by (simp add: fetch_channel_data_def world_of_def)
  have h2: "parse_stream_info (py_repr ?w) (snd (fetch_channel_data (network ?w) ''nova''))
              = Inr info_offline"
    by (simp add: fetch_channel_data_def world_of_def parse_payload_offline)
  have h3: "\<not> truthy (is_live info_offline)"
    by (simp add: info_offline_def)
  have h4: "truthy (dict_get_default ?rec ''is_live'' (JBool False))"
    by (simp add: example_defs)
  have h5: "truthy (resolve_channel_id ?rec None)"
    by (simp add: example_defs)
  have h6: "get_channel guild_one (resolve_channel_id ?rec None) = Some 1"
    by (simp add: example_defs)
  have h7: "map_of [(''nova'', ?rec)] ''nova'' = Some ?rec"
    by simp
  have h8: "build_offline_embed ?w info_offline = Inr ''offline''"
    by (simp add: world_of_def)
  show ?thesis
    by (rule went_offline_clears_state [OF h1 h2 h3 h4 h5 h6 h7 h8])
qed

text \<open>The claim as written fails. The stored record is live and the fetch is not, but no
  channel is set, neither in the record nor in the guild: the record stays live and keeps
  its message id.\<close>

theorem went_offline_counterexample:
  "truthy (dict_get_default (record_of JNull (JNum 9) (JBool True) (JNum 7)) ''is_live'' (JBool False))
   \<and> parse_stream_info repr_none (JObj payload_offline) = Inr info_offline
   \<and> is_live info_offline = JBool False
   \<and> saved (check_single_streamer (world_of payload_offline) guild_one ''nova''
              (record_of JNull (JNum 9) (JBool True) (JNum 7)) ''detailed'' True True False None None
              [(''nova'', record_of JNull (JNum 9) (JBool True) (JNum 7))])
       = [(''nova'', record_of JNull (JNum 9) (JBool True) (JNum 7))]
   \<and> dict_get (record_of JNull (JNum 9) (JBool True) (JNum 7)) ''is_live'' = JBool True
   \<and> dict_get (record_of JNull (JNum 9) (JBool True) (JNum 7)) ''last_message_id'' = JNum 9"
proof -
  have "truthy (dict_get_default (record_of JNull (JNum 9) (JBool True) (JNum 7)) ''is_live'' (JBool False))"
    and "dict_get (record_of JNull (JNum 9) (JBool True) (JNum 7)) ''is_live'' = JBool True"
    and "dict_get (record_of JNull (JNum 9) (JBool True) (JNum 7)) ''last_message_id'' = JNum 9"
    by (simp_all add: record_of_def dict_get_def dict_get_default_def)
  moreover have "is_live info_offline = JBool False"
    by (simp add: info_offline_def)
  ultimately show ?thesis
    by (simp add: check_example_no_channel parse_payload_offline)
qed

text \<open>
  C4. When a check attempts a send and the send fails, the check returns without raising
  and the stored records are what they were; in particular no message id is written.
\<close>

theorem send_failure_swallowed:
  assumes "send_result w = Inl err"
      and "Send c x e \<in> set (actions (check_single_streamer w g uname cfg style sv sc ad gcid gprid store))"
  shows "raised (check_single_streamer w g uname cfg style sv sc ad gcid gprid store) = None
       \<and> saved (check_single_streamer w g uname cfg style sv sc ad gcid gprid store) = store"
proof -
  let ?data = "snd (fetch_channel_data (network w) uname)"
  from assms(2) obtain info ch where
        parse: "parse_stream_info (py_repr w) ?data = Inr info"
    and data: "?data \<noteq> JNull"
    and chan: "truthy (resolve_channel_id cfg gcid)"
              "get_channel g (resolve_channel_id cfg gcid) = Some ch"
    and send: "Send c x e \<in> set (actions (transition w g uname cfg style sv sc ad ch
                 (py_or (dict_get cfg ''ping_role_id'') (opt_json gprid)) info store))"
    by (auto simp: check_single_streamer_def Let_def split: sum.splits if_splits option.splits)
  have eq: "check_single_streamer w g uname cfg style sv sc ad gcid gprid store
        = (let r = went_live w g uname cfg style sv sc ch
                 (py_or (dict_get cfg ''ping_role_id'') (opt_json gprid)) info store
           in r\<lparr>actions := HttpGet (request_url uname) # actions r\<rparr>)"
    using parse data chan transition_send_is_went_live [OF send]
    by (simp add: check_single_streamer_def Let_def)
  from send have "Send c x e \<in> set (actions (went_live w g uname cfg style sv sc ch
                 (py_or (dict_get cfg ''ping_role_id'') (opt_json gprid)) info store))"
    by (simp add: transition_send_is_went_live [OF send])
  with went_live_send_fails [OF assms(1)] show ?thesis
    by (simp add: eq Let_def)
qed

theorem send_failure_swallowed_witness:
  "Send 1 None ''live''
     \<in> set (actions (check_single_streamer ((world_of payload_live)\<lparr>send_result := Inl Forbidden\<rparr>)
                guild_one ''nova'' (record_of (JNum 1) JNull (JBool False) JNull)
                ''detailed'' True True False None None
                [(''nova'', record_of (JNum 1) JNull (JBool False) JNull)]))
   \<and> raised (check_single_streamer ((world_of payload_live)\<lparr>send_result := Inl Forbidden\<rparr>)
                guild_one ''nova'' (record_of (JNum 1) JNull (JBool False) JNull)
                ''detailed'' True True False None None
                [(''nova'', record_of (JNum 1) JNull (JBool False) JNull)]) = None
   \<and> saved (check_single_streamer ((world_of payload_live)\<lparr>send_result := Inl Forbidden\<rparr>)
                guild_one ''nova'' (record_of (JNum 1) JNull (JBool False) JNull)
                ''detailed'' True True False None None
                [(''nova'', record_of (JNum 1) JNull (JBool False) JNull)])
       = [(''nova'', record_of (JNum 1) JNull (JBool False) JNull)]"
proof -
  let ?w = "(world_of payload_live)\<lparr>send_result := Inl Forbidden\<rparr>"
  let ?rec = "record_of (JNum 1) JNull (JBool False) JNull"
  have h1: "send_result ?w = Inl Forbidden"
    by simp
  have h2: "Send 1 None ''live''
              \<in> set (actions (check_single_streamer ?w guild_one ''nova'' ?rec
                         ''detailed'' True True False None None [(''nova'', ?rec)]))"
    by (simp add: check_example_send_forbidden)
  from send_failure_swallowed [OF h1 h2] h2 show ?thesis
    by simp
qed

text \<open>
  C10. When no channel id is set, neither in the record nor in the guild, or the id is
  not a channel of the guild, the check does nothing after its request: no send, no
  \<^verbatim>\<open>fetch_message\<close>, no edit, no delete, and the stored records are what they were,
  whichever transition the fetch would have called for.
\<close>

theorem check_unresolved_channel_noop:
  assumes "\<not> truthy (resolve_channel_id cfg gcid)
           \<or> get_channel g (resolve_channel_id cfg gcid) = None"
  shows "actions (check_single_streamer w g uname cfg style sv sc ad gcid gprid store)
           = [HttpGet (request_url uname)]
       \<and> saved (check_single_streamer w g uname cfg style sv sc ad gcid gprid store) = store"
  using assms
  by (auto simp: check_single_streamer_def Let_def split: sum.splits)

theorem check_unresolved_channel_noop_witness:
  "actions (check_single_streamer (world_of payload_offline) guild_one ''nova''
              (record_of (JNum 2) (JNum 9) (JBool True) (JNum 7)) ''detailed'' True True False None None
              [(''nova'', record_of (JNum 2) (JNum 9) (JBool True) (JNum 7))])
     = [HttpGet (request_url ''nova'')]
   \<and> saved (check_single_streamer (world_of payload_offline) guild_one ''nova''
              (record_of (JNum 2) (JNum 9) (JBool True) (JNum 7)) ''detailed'' True True False None None
              [(''nova'', record_of (JNum 2) (JNum 9) (JBool True) (JNum 7))])
     = [(''nova'', record_of (JNum 2) (JNum 9) (JBool True) (JNum 7))]
   \<and> dict_get (record_of (JNum 2) (JNum 9) (JBool True) (JNum 7)) ''is_live'' = JBool True"
proof -
  let ?rec = "record_of (JNum 2) (JNum 9) (JBool True) (JNum 7)"
  have h: "\<not> truthy (resolve_channel_id ?rec None)
           \<or> get_channel guild_one (resolve_channel_id ?rec None) = None"
    by (simp add: example_defs)
  from check_unresolved_channel_noop [OF h] show ?thesis
    by (simp add: record_of_def dict_get_def)
qed

subsection \<open>The scheduler's sleep time\<close>

lemma foldl_min_Min: "foldl min (x :: int) xs = Min (insert x (set xs))"
proof (induction xs arbitrary: x)
  case Nil
  show ?case by simp
next
  case (Cons y ys)
  have "Min (insert (min x y) (set ys)) = Min (insert x (insert y (set ys)))"
  proof (cases "set ys = {}")
    case True
    then show ?thesis by (simp add: min.commute)
  next
    case False
    then show ?thesis by (simp add: min.assoc)
  qed
  with Cons show ?case by simp
qed

lemma filter_has_streamers:
  "set (filter has_streamers all_guilds)
     = {g \<in> set all_guilds. \<exists>s. streamers g = Some s \<and> s \<noteq> []}"
  by (auto simp: has_streamers_def split: option.splits)

lemma interval_of_eq:
  "interval_of = (\<lambda>g. case check_interval g of None \<Rightarrow> 60 | Some n \<Rightarrow> n)"
  by (simp add: fun_eq_iff interval_of_def)

text \<open>
  C5. The sleep time of a cycle is the maximum of 30 and the least configured
  \<^verbatim>\<open>check_interval\<close> among the guilds whose \<^verbatim>\<open>streamers\<close> is not empty (a guild without
  a configured interval counts as 60), and it is 60 when no guild has a streamer.
\<close>

theorem sleep_time_spec:
  "sleep_time all_guilds =
     (if {g \<in> set all_guilds. \<exists>s. streamers g = Some s \<and> s \<noteq> []} = {} then 60
      else max 30
             (Min ((\<lambda>g. case check_interval g of None \<Rightarrow> 60 | Some n \<Rightarrow> n)
                     ` {g \<in> set all_guilds. \<exists>s. streamers g = Some s \<and> s \<noteq> []})))"
proof (cases "map interval_of (filter has_streamers all_guilds)")
  case Nil
  then have "set (filter has_streamers all_guilds) = {}" by simp
  then have "{g \<in> set all_guilds. \<exists>s. streamers g = Some s \<and> s \<noteq> []} = {}"
    unfolding filter_has_streamers .
  with Nil show ?thesis by (simp add: sleep_time_def)
next
  case (Cons x xs)
  then have "filter has_streamers all_guilds \<noteq> []" by auto
  then have "set (filter has_streamers all_guilds) \<noteq> {}" by (simp only: set_empty not_False_eq_True)
  then have ne: "{g \<in> set all_guilds. \<exists>s. streamers g = Some s \<and> s \<noteq> []} \<noteq> {}"
    unfolding filter_has_streamers .
  have "interval_of ` set (filter has_streamers all_guilds) = insert x (set xs)"
    using Cons by (metis list.simps(15) set_map)
  then have img: "(\<lambda>g. case check_interval g of None \<Rightarrow> 60 | Some n \<Rightarrow> n)
                     ` {g \<in> set all_guilds. \<exists>s. streamers g = Some s \<and> s \<noteq> []}
                   = insert x (set xs)"
    unfolding filter_has_streamers interval_of_eq .
  have st: "sleep_time all_guilds = max 30 (Min (insert x (set xs)))"
    using Cons by (simp add: sleep_time_def foldl_min_Min max.commute)
  show ?thesis unfolding img st by (simp only: ne if_False)
qed

text \<open>Intervals 45 and 20 give the floor, 30; intervals 45 and 90 give 45; a single
  interval of 120 gives 120; a guild without streamers does not count, whatever its
  interval; and without any streamer the sleep time is 60.\<close>

theorem sleep_time_example:
  "sleep_time [\<lparr>streamers = Some [(''nova'', [])], check_interval = Some 45\<rparr>,
               \<lparr>streamers = Some [(''zed'', [])], check_interval = Some 20\<rparr>] = 30
   \<and> sleep_time [\<lparr>streamers = Some [(''nova'', [])], check_interval = Some 45\<rparr>,
                 \<lparr>streamers = Some [(''zed'', [])], check_interval = Some 90\<rparr>] = 45
   \<and> sleep_time [\<lparr>streamers = Some [(''nova'', [])], check_interval = Some 120\<rparr>] = 120
   \<and> sleep_time [\<lparr>streamers = Some [(''nova'', [])], check_interval = Some 300\<rparr>,
                 \<lparr>streamers = Some [], check_interval = Some 40\<rparr>] = 300
   \<and> sleep_time [\<lparr>streamers = Some [], check_interval = Some 45\<rparr>] = 60"
proof -
  have e1: "{g \<in> set [\<lparr>streamers = Some [(''nova'', [])], check_interval = Some 45\<rparr>,
                       \<lparr>streamers = Some [(''zed'', [])], check_interval = Some (90::int)\<rparr>].
              \<exists>s. streamers g = Some s \<and> s \<noteq> []}
            = {\<lparr>streamers = Some [(''nova'', [])], check_interval = Some 45\<rparr>,
               \<lparr>streamers = Some [(''zed'', [])], check_interval = Some 90\<rparr>}"
    by auto
  have "sleep_time [\<lparr>streamers = Some [(''nova'', [])], check_interval = Some 45\<rparr>,
                    \<lparr>streamers = Some [(''zed'', [])], check_interval = Some 90\<rparr>] = 45"
    unfolding sleep_time_spec [of "[\<lparr>streamers = Some [(''nova'', [])], check_interval = Some 45\<rparr>,
                    \<lparr>streamers = Some [(''zed'', [])], check_interval = Some 90\<rparr>]"] e1
    by simp
  then show ?thesis
    by (simp add: sleep_time_def has_streamers_def interval_of_def)
qed

end
